theory Spec2Isabelle
  imports Complex_Main "HOL-Library.Multiset" "HOL-Library.Sublist"
begin

section \<open>Financial tracker: ledger, balances, monthly totals\<close>

text \<open>
  The program is \<^verbatim>\<open>financial_tracker.py\<close>, one class \<^verbatim>\<open>FinancialTrackerApp\<close>.
  Its ledger is the list \<^verbatim>\<open>self.data["transactions"]\<close> of dictionaries; every
  dictionary the program builds has one of four shapes, told apart by the key
  \<^verbatim>\<open>'type'\<close> (\<^verbatim>\<open>income\<close>, \<^verbatim>\<open>expense\<close>, \<^verbatim>\<open>transfer_usd_dzd\<close>, \<^verbatim>\<open>transfer_paypal_bank\<close>).
  The four shapes are the four constructors below; the fields keep the dictionary keys
  (\<^verbatim>\<open>'id'\<close> is \<open>txn_id\<close>).

  Amounts are Python floats. The type of amounts is a parameter \<open>'a\<close> of the model:
  what is proved for every \<open>'a\<close> holds whatever the arithmetic is, and what is proved
  for a group is about exact arithmetic. Two instances follow the floats themselves:
  \<open>pyfloat\<close> has the values a form entry can hold (finite numbers, the two infinities
  and nan) with their comparisons, and \<open>float64\<close> is the arithmetic of the finite
  binary64 numbers, with rounding.
\<close>

subsection \<open>Data\<close>

datatype currency = USD | DZD

datatype 'a transaction =
    Income (txn_id: string) (date: string) (category: string)
      (amount: 'a) (fee_amount: 'a) (net_amount: 'a) (to_paypal: bool)
  | Expense (txn_id: string) (date: string) (category: string)
      (amount: 'a) (currency: currency)
  | TransferUsdDzd (txn_id: string) (date: string)
      (amount_usd: 'a) (rate: 'a) (amount_dzd: 'a)
  | TransferPaypalBank (txn_id: string) (date: string)
      (amount_sent: 'a) (fee_paid: 'a) (amount_received: 'a)

text \<open>The dictionary \<^verbatim>\<open>stats\<close> of \<^verbatim>\<open>calculate_stats\<close>, with its six keys.\<close>

record 'a stats =
  usd_savings :: 'a
  paypal_balance :: 'a
  dzd_cash :: 'a
  month_earned :: 'a
  month_spent_usd :: 'a
  month_spent_dzd :: 'a

text \<open>
  The part of the application object the ledger code reads and writes:
  \<^verbatim>\<open>self.data["transactions"]\<close>, \<^verbatim>\<open>self.data["settings"]["display_rate"]\<close>,
  \<^verbatim>\<open>self.selected_year\<close> and \<^verbatim>\<open>self.selected_month\<close>.
\<close>

record 'a app =
  transactions :: "'a transaction list"
  display_rate :: 'a
  selected_year :: int
  selected_month :: int

subsection \<open>Strings: decimal rendering, \<^verbatim>\<open>startswith\<close>, \<^verbatim>\<open>in\<close>\<close>

definition digit_char :: "nat \<Rightarrow> char" where
  "digit_char n = ''0123456789'' ! n"

fun str_nat :: "nat \<Rightarrow> string" where
  "str_nat n = (if n < 10 then [digit_char n] else str_nat (n div 10) @ [digit_char (n mod 10)])"

declare str_nat.simps [simp del]

text \<open>\<^verbatim>\<open>str(i)\<close> of a Python int, which is what \<^verbatim>\<open>f"{i}"\<close> prints.\<close>

definition str_int :: "int \<Rightarrow> string" where
  "str_int i = (if i < 0 then CHR ''-'' # str_nat (nat (- i)) else str_nat (nat i))"

definition zfill :: "nat \<Rightarrow> string \<Rightarrow> string" where
  "zfill w s = replicate (w - length s) CHR ''0'' @ s"

text \<open>
  \<^verbatim>\<open>f"{i:02d}"\<close>: zero padding to width 2, the sign counted in the width (so
  \<^verbatim>\<open>-1\<close> prints as \<^verbatim>\<open>-1\<close>).
\<close>

definition fmt_02d :: "int \<Rightarrow> string" where
  "fmt_02d i = (if i < 0 then CHR ''-'' # zfill 1 (str_nat (nat (- i))) else zfill 2 (str_nat (nat i)))"

text \<open>\<^verbatim>\<open>s.startswith(p)\<close>.\<close>

definition startswith :: "string \<Rightarrow> string \<Rightarrow> bool" where
  "startswith s p = prefix p s"

text \<open>\<^verbatim>\<open>sub in s\<close> on strings: \<open>sub\<close> occurs in \<open>s\<close> as a contiguous piece.\<close>

fun py_in :: "string \<Rightarrow> string \<Rightarrow> bool" where
  "py_in sub [] = (sub = [])"
| "py_in sub (c # cs) = (prefix sub (c # cs) \<or> py_in sub cs)"

subsection \<open>Balances and monthly totals: \<^verbatim>\<open>calculate_stats\<close>\<close>

definition get_monthly_key :: "'a app \<Rightarrow> string" where
  "get_monthly_key a = str_int (selected_year a) @ ''-'' @ fmt_02d (selected_month a)"

text \<open>
  The body of the loop \<^verbatim>\<open>for t in self.data["transactions"]\<close>: first the chain on
  \<^verbatim>\<open>t['type']\<close> that moves the three balances, then the monthly part under
  \<^verbatim>\<open>t['date'].startswith(target_month)\<close>.
\<close>

definition stats_step :: "string \<Rightarrow> ('a::{zero,plus,minus}) stats \<Rightarrow> 'a transaction \<Rightarrow> 'a stats" where
  "stats_step target_month stats t =
    (let stats1 =
       (case t of
          Income _ _ _ _ _ net paypal \<Rightarrow>
            if paypal then stats\<lparr>paypal_balance := paypal_balance stats + net\<rparr>
            else stats\<lparr>usd_savings := usd_savings stats + net\<rparr>
        | Expense _ _ _ amt cur \<Rightarrow>
            if cur = USD then stats\<lparr>usd_savings := usd_savings stats - amt\<rparr>
            else stats\<lparr>dzd_cash := dzd_cash stats - amt\<rparr>
        | TransferUsdDzd _ _ usd _ dzd \<Rightarrow>
            stats\<lparr>usd_savings := usd_savings stats - usd, dzd_cash := dzd_cash stats + dzd\<rparr>
        | TransferPaypalBank _ _ sent _ received \<Rightarrow>
            stats\<lparr>paypal_balance := paypal_balance stats - sent,
                  usd_savings := usd_savings stats + received\<rparr>)
     in
       if startswith (date t) target_month then
         (case t of
            Income _ _ _ _ _ net _ \<Rightarrow> stats1\<lparr>month_earned := month_earned stats1 + net\<rparr>
          | Expense _ _ _ amt cur \<Rightarrow>
              if cur = USD then stats1\<lparr>month_spent_usd := month_spent_usd stats1 + amt\<rparr>
              else stats1\<lparr>month_spent_dzd := month_spent_dzd stats1 + amt\<rparr>
          | _ \<Rightarrow> stats1)
       else stats1)"

definition stats_init :: "('a::zero) stats" where
  "stats_init = \<lparr>usd_savings = 0, paypal_balance = 0, dzd_cash = 0,
                 month_earned = 0, month_spent_usd = 0, month_spent_dzd = 0\<rparr>"

definition calculate_stats :: "('a::{zero,plus,minus}) app \<Rightarrow> 'a stats" where
  "calculate_stats a = foldl (stats_step (get_monthly_key a)) stats_init (transactions a)"

subsection \<open>What each transaction contributes to each account\<close>

text \<open>
  The fold rule of the balance engine, one signed contribution per transaction and
  account, written from the specification's table.
\<close>

fun bank_contribution :: "('a::ab_group_add) transaction \<Rightarrow> 'a" where
  "bank_contribution (Income _ _ _ _ _ net paypal) = (if paypal then 0 else net)"
| "bank_contribution (Expense _ _ _ amt cur) = (if cur = USD then - amt else 0)"
| "bank_contribution (TransferUsdDzd _ _ usd _ _) = - usd"
| "bank_contribution (TransferPaypalBank _ _ _ _ received) = received"

fun paypal_contribution :: "('a::ab_group_add) transaction \<Rightarrow> 'a" where
  "paypal_contribution (Income _ _ _ _ _ net paypal) = (if paypal then net else 0)"
| "paypal_contribution (TransferPaypalBank _ _ sent _ _) = - sent"
| "paypal_contribution _ = 0"

fun cash_contribution :: "('a::ab_group_add) transaction \<Rightarrow> 'a" where
  "cash_contribution (Expense _ _ _ amt cur) = (if cur = DZD then - amt else 0)"
| "cash_contribution (TransferUsdDzd _ _ _ _ dzd) = dzd"
| "cash_contribution _ = 0"

subsection \<open>Net worth: the expression of \<^verbatim>\<open>refresh_ui\<close>\<close>

datatype py_error = ZeroDivisionError

text \<open>\<^verbatim>\<open>x / y\<close> on floats raises \<^verbatim>\<open>ZeroDivisionError\<close> when \<open>y\<close> is zero.\<close>

definition py_truediv :: "real \<Rightarrow> real \<Rightarrow> py_error + real" where
  "py_truediv x y = (if y = 0 then Inl ZeroDivisionError else Inr (x / y))"

text \<open>
  \<^verbatim>\<open>total_nw = stats['usd_savings'] + stats['paypal_balance'] +
             (stats['dzd_cash']/disp_rate if disp_rate > 0 else 0)\<close>
\<close>

definition total_nw :: "real stats \<Rightarrow> real \<Rightarrow> py_error + real" where
  "total_nw stats disp_rate =
    (case (if disp_rate > 0 then py_truediv (dzd_cash stats) disp_rate else Inr 0) of
       Inl e \<Rightarrow> Inl e
     | Inr cash_term \<Rightarrow> Inr (usd_savings stats + paypal_balance stats + cash_term))"

subsection \<open>Ledger store: append and delete by id\<close>

text \<open>
  \<^verbatim>\<open>add_transaction_to_db\<close> appends to the list in memory, then runs the
  \<^verbatim>\<open>INSERT\<close> inside \<^verbatim>\<open>try\<close>. The database is outside the model: the argument
  \<open>insert_ok\<close> says whether connecting, inserting and committing went through without
  an exception. The function returns \<^verbatim>\<open>True\<close> then and \<^verbatim>\<open>False\<close> from the
  \<^verbatim>\<open>except\<close> branch.
\<close>

definition add_transaction_to_db :: "bool \<Rightarrow> 'a transaction \<Rightarrow> 'a app \<Rightarrow> bool \<times> 'a app" where
  "add_transaction_to_db insert_ok t a =
    (let a1 = a\<lparr>transactions := transactions a @ [t]\<rparr>
     in if insert_ok then (True, a1) else (False, a1))"

text \<open>
  \<^verbatim>\<open>delete_transaction\<close>: when the user confirms the dialog, the list becomes
  \<^verbatim>\<open>[t for t in self.data["transactions"] if t.get("id") != tid]\<close>; the
  \<^verbatim>\<open>DELETE\<close> that follows changes nothing in memory, whether it raises or not.
\<close>

definition delete_transaction :: "bool \<Rightarrow> string \<Rightarrow> 'a app \<Rightarrow> 'a app" where
  "delete_transaction confirmed tid a =
    (if confirmed then a\<lparr>transactions := filter (\<lambda>t. txn_id t \<noteq> tid) (transactions a)\<rparr>
     else a)"

subsection \<open>The values of a float\<close>

text \<open>
  \<^verbatim>\<open>float(text)\<close> returns a finite number, an infinity (\<^verbatim>\<open>float("1e400")\<close>,
  \<^verbatim>\<open>float("inf")\<close>) or nan (\<^verbatim>\<open>float("nan")\<close>), or raises \<^verbatim>\<open>ValueError\<close>. The
  special values follow IEEE 754, as Python's do: an operation with nan gives nan,
  \<open>inf - inf\<close> and \<open>0 * inf\<close> are nan, and every comparison with nan is false. On
  finite values the operations are exact here; rounding is the subject of \<open>float64\<close>.
\<close>

datatype pyfloat = Fin real | PInf | NInf | NaN

fun pyfloat_add :: "pyfloat \<Rightarrow> pyfloat \<Rightarrow> pyfloat" where
  "pyfloat_add NaN _ = NaN"
| "pyfloat_add _ NaN = NaN"
| "pyfloat_add PInf NInf = NaN"
| "pyfloat_add NInf PInf = NaN"
| "pyfloat_add PInf _ = PInf"
| "pyfloat_add _ PInf = PInf"
| "pyfloat_add NInf _ = NInf"
| "pyfloat_add _ NInf = NInf"
| "pyfloat_add (Fin x) (Fin y) = Fin (x + y)"

fun pyfloat_neg :: "pyfloat \<Rightarrow> pyfloat" where
  "pyfloat_neg NaN = NaN"
| "pyfloat_neg PInf = NInf"
| "pyfloat_neg NInf = PInf"
| "pyfloat_neg (Fin x) = Fin (- x)"

fun pyfloat_mul :: "pyfloat \<Rightarrow> pyfloat \<Rightarrow> pyfloat" where
  "pyfloat_mul NaN _ = NaN"
| "pyfloat_mul _ NaN = NaN"
| "pyfloat_mul (Fin x) (Fin y) = Fin (x * y)"
| "pyfloat_mul PInf (Fin y) = (if y = 0 then NaN else if 0 < y then PInf else NInf)"
| "pyfloat_mul NInf (Fin y) = (if y = 0 then NaN else if 0 < y then NInf else PInf)"
| "pyfloat_mul (Fin x) PInf = (if x = 0 then NaN else if 0 < x then PInf else NInf)"
| "pyfloat_mul (Fin x) NInf = (if x = 0 then NaN else if 0 < x then NInf else PInf)"
| "pyfloat_mul PInf PInf = PInf"
| "pyfloat_mul NInf NInf = PInf"
| "pyfloat_mul PInf NInf = NInf"
| "pyfloat_mul NInf PInf = NInf"

fun pyfloat_less :: "pyfloat \<Rightarrow> pyfloat \<Rightarrow> bool" where
  "pyfloat_less NaN _ = False"
| "pyfloat_less _ NaN = False"
| "pyfloat_less (Fin x) (Fin y) = (x < y)"
| "pyfloat_less _ NInf = False"
| "pyfloat_less NInf _ = True"
| "pyfloat_less PInf _ = False"
| "pyfloat_less _ PInf = True"

instantiation pyfloat :: "{zero,plus,minus,times,ord}"
begin

definition zero_pyfloat :: pyfloat where
  "zero_pyfloat = Fin 0"

definition plus_pyfloat :: "pyfloat \<Rightarrow> pyfloat \<Rightarrow> pyfloat" where
  "plus_pyfloat x y = pyfloat_add x y"

definition minus_pyfloat :: "pyfloat \<Rightarrow> pyfloat \<Rightarrow> pyfloat" where
  "minus_pyfloat x y = pyfloat_add x (pyfloat_neg y)"

definition times_pyfloat :: "pyfloat \<Rightarrow> pyfloat \<Rightarrow> pyfloat" where
  "times_pyfloat x y = pyfloat_mul x y"

definition less_pyfloat :: "pyfloat \<Rightarrow> pyfloat \<Rightarrow> bool" where
  "less_pyfloat x y = pyfloat_less x y"

definition less_eq_pyfloat :: "pyfloat \<Rightarrow> pyfloat \<Rightarrow> bool" where
  "less_eq_pyfloat x y = (x \<noteq> NaN \<and> y \<noteq> NaN \<and> (x = y \<or> pyfloat_less x y))"

instance ..

end

subsection \<open>Actions: the four forms\<close>

text \<open>
  What an action reads from outside the ledger: the fresh \<^verbatim>\<open>str(uuid.uuid4())\<close>, the
  string \<^verbatim>\<open>datetime.now().strftime("%Y-%m-%d")\<close>, and whether the insert succeeds.
\<close>

record env =
  new_id :: string
  today :: string
  insert_ok :: bool

text \<open>
  The message box an action ends with. \<open>Invalid_Input\<close> is the bare \<^verbatim>\<open>except\<close>
  of the action, \<open>Database_Error\<close> the \<^verbatim>\<open>except\<close> of \<^verbatim>\<open>add_transaction_to_db\<close>.
\<close>

datatype outcome = Success | Invalid_Input | Insufficient_Funds | Database_Error

text \<open>
  The widgets of the forms. A numeric entry is given by what \<^verbatim>\<open>float(entry.get())\<close>
  returns: \<open>None\<close> when it raises \<^verbatim>\<open>ValueError\<close>, else a finite number, an
  infinity or nan. Combo boxes and the check box variable are strings.
\<close>

record income_form =
  entry_inc_name :: string
  entry_inc_amount :: "pyfloat option"
  combo_fee_type :: string
  entry_fee_val :: "pyfloat option"
  chk_paypal_var :: string

record paypal_form =
  entry_pp_amount :: "pyfloat option"
  combo_pp_method :: string

record exchange_form =
  entry_ex_usd :: "pyfloat option"
  entry_ex_rate :: "pyfloat option"

record expense_form =
  entry_exp_desc :: string
  entry_exp_amount :: "pyfloat option"
  combo_exp_cat :: string
  combo_exp_curr :: string

definition saved :: "bool \<times> pyfloat app \<Rightarrow> outcome \<times> pyfloat app" where
  "saved r = (if fst r then (Success, snd r) else (Database_Error, snd r))"

definition add_income :: "env \<Rightarrow> income_form \<Rightarrow> pyfloat app \<Rightarrow> outcome \<times> pyfloat app" where
  "add_income e f a =
    (case entry_inc_amount f of
       None \<Rightarrow> (Invalid_Input, a)
     | Some val \<Rightarrow>
        (case (if py_in ''Manual'' (combo_fee_type f) then entry_fee_val f
               else Some (if py_in ''Upwork'' (combo_fee_type f) then val * Fin 0.1 else 0)) of
           None \<Rightarrow> (Invalid_Input, a)
         | Some fee \<Rightarrow>
             saved (add_transaction_to_db (insert_ok e)
               (Income (new_id e) (today e) (entry_inc_name f) val fee (val - fee)
                  (chk_paypal_var f = ''on'')) a)))"

definition transfer_paypal_to_bank :: "env \<Rightarrow> paypal_form \<Rightarrow> pyfloat app \<Rightarrow> outcome \<times> pyfloat app" where
  "transfer_paypal_to_bank e f a =
    (case entry_pp_amount f of
       None \<Rightarrow> (Invalid_Input, a)
     | Some amt \<Rightarrow>
        (let fee = (if py_in ''Manual'' (combo_pp_method f) then Fin 5.0 else 0)
         in if paypal_balance (calculate_stats a) < amt then (Insufficient_Funds, a)
            else saved (add_transaction_to_db (insert_ok e)
                   (TransferPaypalBank (new_id e) (today e) amt fee (amt - fee)) a)))"

definition transfer_usd_to_dzd :: "env \<Rightarrow> exchange_form \<Rightarrow> pyfloat app \<Rightarrow> outcome \<times> pyfloat app" where
  "transfer_usd_to_dzd e f a =
    (case entry_ex_usd f of
       None \<Rightarrow> (Invalid_Input, a)
     | Some usd \<Rightarrow>
        (case entry_ex_rate f of
           None \<Rightarrow> (Invalid_Input, a)
         | Some ex_rate \<Rightarrow>
             if usd_savings (calculate_stats a) < usd then (Insufficient_Funds, a)
             else saved (add_transaction_to_db (insert_ok e)
                    (TransferUsdDzd (new_id e) (today e) usd ex_rate (usd * ex_rate)) a)))"

definition add_expense :: "env \<Rightarrow> expense_form \<Rightarrow> pyfloat app \<Rightarrow> outcome \<times> pyfloat app" where
  "add_expense e f a =
    (case entry_exp_amount f of
       None \<Rightarrow> (Invalid_Input, a)
     | Some amt \<Rightarrow>
        (let curr = (if py_in ''USD'' (combo_exp_curr f) then USD else DZD);
             s = calculate_stats a
         in if (curr = USD \<and> usd_savings s < amt) \<or> (curr = DZD \<and> dzd_cash s < amt)
            then (Insufficient_Funds, a)
            else saved (add_transaction_to_db (insert_ok e)
                   (Expense (new_id e) (today e) (combo_exp_cat f @ '' - '' @ entry_exp_desc f)
                      amt curr) a)))"

subsection \<open>Calendar months\<close>

text \<open>
  The string \<^verbatim>\<open>strftime("%Y-%m-%d")\<close> gives for the day \<open>d\<close> of month \<open>m\<close> of year \<open>y\<close>
  (four digits for the years 1000 to 9999, on every platform). A date string is such a
  string; it lies in the calendar month \<open>(Y, M)\<close> when it is the string of a day of
  month \<open>M\<close> of year \<open>Y\<close>. This is the specification's notion of a month, against which
  the prefix test of \<^verbatim>\<open>calculate_stats\<close> is compared.
\<close>

definition strftime_ymd :: "nat \<Rightarrow> nat \<Rightarrow> nat \<Rightarrow> string" where
  "strftime_ymd y m d = zfill 4 (str_nat y) @ ''-'' @ zfill 2 (str_nat m) @ ''-'' @ zfill 2 (str_nat d)"

definition is_date_string :: "string \<Rightarrow> bool" where
  "is_date_string s = (\<exists>y \<in> {1000..9999}. \<exists>m \<in> {1..12}. \<exists>d \<in> {1..31}. s = strftime_ymd y m d)"

definition in_calendar_month :: "int \<Rightarrow> int \<Rightarrow> string \<Rightarrow> bool" where
  "in_calendar_month Y M s =
    (\<exists>y \<in> {1000..9999}. \<exists>m \<in> {1..12}. \<exists>d \<in> {1..31}.
       s = strftime_ymd y m d \<and> int y = Y \<and> int m = M)"

text \<open>What a transaction adds to the three monthly totals, from the specification.\<close>

fun earned_contribution :: "('a::ab_group_add) transaction \<Rightarrow> 'a" where
  "earned_contribution (Income _ _ _ _ _ net _) = net"
| "earned_contribution _ = 0"

fun spent_usd_contribution :: "('a::ab_group_add) transaction \<Rightarrow> 'a" where
  "spent_usd_contribution (Expense _ _ _ amt cur) = (if cur = USD then amt else 0)"
| "spent_usd_contribution _ = 0"

fun spent_dzd_contribution :: "('a::ab_group_add) transaction \<Rightarrow> 'a" where
  "spent_dzd_contribution (Expense _ _ _ amt cur) = (if cur = DZD then amt else 0)"
| "spent_dzd_contribution _ = 0"

subsection \<open>Non-negative monetary fields\<close>

text \<open>
  The invariant of the specification's data model: gross amount, fee and net amount of
  an income, the amount of an expense, both amounts of an exchange, and the amounts sent
  and received of a PayPal transfer are not negative (\<open>0 \<le> x\<close>, which is false of nan).
\<close>

fun monetary_fields_nonneg :: "pyfloat transaction \<Rightarrow> bool" where
  "monetary_fields_nonneg (Income _ _ _ gross fee net _) = (0 \<le> gross \<and> 0 \<le> fee \<and> 0 \<le> net)"
| "monetary_fields_nonneg (Expense _ _ _ amt _) = (0 \<le> amt)"
| "monetary_fields_nonneg (TransferUsdDzd _ _ usd _ dzd) = (0 \<le> usd \<and> 0 \<le> dzd)"
| "monetary_fields_nonneg (TransferPaypalBank _ _ sent _ received) = (0 \<le> sent \<and> 0 \<le> received)"

subsection \<open>Binary64 arithmetic\<close>

text \<open>
  The arithmetic of Python's \<^verbatim>\<open>float\<close> on finite numbers: a finite binary64 number is
  a sign and \<open>m * 2 ^ e\<close>, kept here with \<open>m\<close> odd (or zero), and the sum of two of them is the
  exact sum rounded to 53 significant bits, ties to the even neighbour, with the quantum
  never below \<open>2 ^ - 1074\<close>. Overflow to infinity, NaN and the sign of zero are left out.
  \<open>float_of_ratio p q\<close> is the binary64 number nearest to \<open>p / q\<close>, which is what
  \<^verbatim>\<open>float("0.1")\<close> returns for \<open>1 / 10\<close>.
\<close>

fun bit_length :: "nat \<Rightarrow> nat" where
  "bit_length n = (if n = 0 then 0 else Suc (bit_length (n div 2)))"

declare bit_length.simps [simp del]

definition nearest_even :: "int \<Rightarrow> int \<Rightarrow> int" where
  "nearest_even n d =
    (let q = n div d; r = n mod d
     in if 2 * r < d then q else if d < 2 * r then q + 1 else if even q then q else q + 1)"

fun strip_zeros :: "nat \<Rightarrow> int \<Rightarrow> nat \<times> int" where
  "strip_zeros m e =
    (if m = 0 then (0, 0) else if even m then strip_zeros (m div 2) (e + 1) else (m, e))"

declare strip_zeros.simps [simp del]

datatype float64 = Float64 (negative: bool) (mantissa: nat) (exponent: int)

definition normal_form :: "int \<Rightarrow> int \<Rightarrow> float64" where
  "normal_form n e = (case strip_zeros (nat \<bar>n\<bar>) e of (m, e') \<Rightarrow> Float64 (n < 0) m e')"

definition round_to_float64 :: "int \<Rightarrow> int \<Rightarrow> int \<Rightarrow> float64" where
  "round_to_float64 p q e =
    (let len = bit_length (nat (\<bar>p\<bar> div q));
         s = max (int len - 53) (- 1074 - e)
     in if s \<le> 0 \<and> q = 1 then normal_form p e
        else normal_form (sgn p * nearest_even (\<bar>p\<bar> * 2 ^ nat (- s)) (q * 2 ^ nat s)) (e + s))"

definition signed_mantissa :: "float64 \<Rightarrow> int" where
  "signed_mantissa x = (if negative x then - int (mantissa x) else int (mantissa x))"

definition float64_add :: "float64 \<Rightarrow> float64 \<Rightarrow> float64" where
  "float64_add x y =
    (let e = min (exponent x) (exponent y)
     in round_to_float64
          (signed_mantissa x * 2 ^ nat (exponent x - e) + signed_mantissa y * 2 ^ nat (exponent y - e))
          1 e)"

definition float64_neg :: "float64 \<Rightarrow> float64" where
  "float64_neg x = Float64 (\<not> negative x \<and> mantissa x \<noteq> 0) (mantissa x) (exponent x)"

instantiation float64 :: "{zero,plus,minus}"
begin

definition zero_float64 :: float64 where
  "zero_float64 = Float64 False 0 0"

definition plus_float64 :: "float64 \<Rightarrow> float64 \<Rightarrow> float64" where
  "plus_float64 x y = float64_add x y"

definition minus_float64 :: "float64 \<Rightarrow> float64 \<Rightarrow> float64" where
  "minus_float64 x y = float64_add x (float64_neg y)"

instance ..

end

definition float_of_ratio :: "int \<Rightarrow> int \<Rightarrow> float64" where
  "float_of_ratio p q =
    (let k = max 0 (54 + int (bit_length (nat q)) - int (bit_length (nat \<bar>p\<bar>)))
     in round_to_float64 (p * 2 ^ nat k) q (- k))"

section \<open>Theorems\<close>

subsection \<open>Unfolding on concrete inputs\<close>

lemmas render_simps =
  strftime_ymd_def get_monthly_key_def str_int_def fmt_02d_def zfill_def str_nat.simps
  digit_char_def startswith_def

lemmas stats_simps = calculate_stats_def stats_step_def stats_init_def Let_def

lemmas pyfloat_simps =
  zero_pyfloat_def plus_pyfloat_def minus_pyfloat_def times_pyfloat_def less_pyfloat_def
  less_eq_pyfloat_def

subsection \<open>The fold, account by account\<close>

lemma stats_step_usd_savings:
  "usd_savings (stats_step k s t) = usd_savings s + bank_contribution t"
  by (cases t) (simp_all add: stats_step_def Let_def)

lemma stats_step_paypal_balance:
  "paypal_balance (stats_step k s t) = paypal_balance s + paypal_contribution t"
  by (cases t) (simp_all add: stats_step_def Let_def)

lemma stats_step_dzd_cash:
  "dzd_cash (stats_step k s t) = dzd_cash s + cash_contribution t"
  by (cases t; cases "currency t") (simp_all add: stats_step_def Let_def)

lemma foldl_usd_savings:
  "usd_savings (foldl (stats_step k) s ts) = usd_savings s + sum_list (map bank_contribution ts)"
  by (induction ts arbitrary: s) (simp_all add: stats_step_usd_savings add.assoc)

lemma foldl_paypal_balance:
  "paypal_balance (foldl (stats_step k) s ts) = paypal_balance s + sum_list (map paypal_contribution ts)"
  by (induction ts arbitrary: s) (simp_all add: stats_step_paypal_balance add.assoc)

lemma foldl_dzd_cash:
  "dzd_cash (foldl (stats_step k) s ts) = dzd_cash s + sum_list (map cash_contribution ts)"
  by (induction ts arbitrary: s) (simp_all add: stats_step_dzd_cash add.assoc)

lemma calculate_stats_usd_savings:
  fixes a :: "('a::ab_group_add) app"
  shows "usd_savings (calculate_stats a) = sum_list (map bank_contribution (transactions a))"
  by (simp add: calculate_stats_def foldl_usd_savings stats_init_def)

lemma calculate_stats_paypal_balance:
  fixes a :: "('a::ab_group_add) app"
  shows "paypal_balance (calculate_stats a) = sum_list (map paypal_contribution (transactions a))"
  by (simp add: calculate_stats_def foldl_paypal_balance stats_init_def)

lemma calculate_stats_dzd_cash:
  fixes a :: "('a::ab_group_add) app"
  shows "dzd_cash (calculate_stats a) = sum_list (map cash_contribution (transactions a))"
  by (simp add: calculate_stats_def foldl_dzd_cash stats_init_def)

text \<open>
  C1. Starting from zero on the three accounts, \<^verbatim>\<open>calculate_stats\<close> returns for the
  bank account the sum over the ledger of \<open>+net_amount\<close> for an income not routed to
  PayPal, \<open>-amount\<close> for a USD expense, \<open>-amount_usd\<close> for a USD to DZD transfer and
  \<open>+amount_received\<close> for a PayPal to bank transfer; for PayPal the sum of
  \<open>+net_amount\<close> for an income routed to PayPal and \<open>-amount_sent\<close> for a PayPal to
  bank transfer; for cash the sum of \<open>-amount\<close> for a DZD expense and \<open>+amount_dzd\<close>
  for a USD to DZD transfer. The sums are exact sums.
\<close>

theorem calculate_stats_balances:
  fixes a :: "('a::ab_group_add) app"
  shows "usd_savings (calculate_stats a) = sum_list (map bank_contribution (transactions a))
       \<and> paypal_balance (calculate_stats a) = sum_list (map paypal_contribution (transactions a))
       \<and> dzd_cash (calculate_stats a) = sum_list (map cash_contribution (transactions a))"
  by (simp add: calculate_stats_usd_savings calculate_stats_paypal_balance
      calculate_stats_dzd_cash)

subsection \<open>The sufficiency guard\<close>

lemma pyfloat_le_iff_not_less:
  "x \<noteq> NaN \<Longrightarrow> y \<noteq> NaN \<Longrightarrow> (y \<le> x) = (\<not> x < (y::pyfloat))"
  by (cases x; cases y) (auto simp: less_pyfloat_def less_eq_pyfloat_def)

lemma pyfloat_nan_compare: "\<not> x < NaN" "\<not> NaN < x" "\<not> x \<le> NaN" "\<not> NaN \<le> (x::pyfloat)"
  by (cases x; simp add: less_pyfloat_def less_eq_pyfloat_def)+

lemma pyfloat_Fin_arith:
  "Fin x + Fin y = Fin (x + y)" "Fin x - Fin y = Fin (x - y)" "Fin x * Fin y = Fin (x * y)"
  "(Fin x < Fin y) = (x < y)" "(Fin x \<le> Fin y) = (x \<le> y)"
  by (auto simp: pyfloat_simps)

lemma pyfloat_mult_commute: "x * y = y * (x::pyfloat)"
  by (cases x; cases y) (simp_all add: times_pyfloat_def mult.commute)

lemma add_expense_cases:
  assumes "entry_exp_amount f = Some amt"
  shows "add_expense e f a =
    (let curr = (if py_in ''USD'' (combo_exp_curr f) then USD else DZD);
         bal = (if curr = USD then usd_savings (calculate_stats a) else dzd_cash (calculate_stats a))
     in if bal < amt then (Insufficient_Funds, a)
        else (if insert_ok e then Success else Database_Error,
              a\<lparr>transactions := transactions a @
                [Expense (new_id e) (today e) (combo_exp_cat f @ '' - '' @ entry_exp_desc f) amt curr]\<rparr>))"
  using assms by (simp add: add_expense_def Let_def saved_def add_transaction_to_db_def)

lemma transfer_usd_to_dzd_cases:
  assumes "entry_ex_usd f = Some usd" "entry_ex_rate f = Some r"
  shows "transfer_usd_to_dzd e f a =
    (if usd_savings (calculate_stats a) < usd then (Insufficient_Funds, a)
     else (if insert_ok e then Success else Database_Error,
           a\<lparr>transactions := transactions a @ [TransferUsdDzd (new_id e) (today e) usd r (usd * r)]\<rparr>))"
  using assms by (simp add: transfer_usd_to_dzd_def Let_def saved_def add_transaction_to_db_def)

lemma transfer_paypal_to_bank_cases:
  assumes "entry_pp_amount f = Some amt"
  shows "transfer_paypal_to_bank e f a =
    (let fee = (if py_in ''Manual'' (combo_pp_method f) then Fin 5 else 0)
     in if paypal_balance (calculate_stats a) < amt then (Insufficient_Funds, a)
     else (if insert_ok e then Success else Database_Error,
           a\<lparr>transactions := transactions a @
             [TransferPaypalBank (new_id e) (today e) amt fee (amt - fee)]\<rparr>))"
  using assms by (simp add: transfer_paypal_to_bank_def Let_def saved_def add_transaction_to_db_def)

lemma add_income_cases:
  assumes "entry_inc_amount f = Some g"
  shows "add_income e f a =
    (case (if py_in ''Manual'' (combo_fee_type f) then entry_fee_val f
           else Some (if py_in ''Upwork'' (combo_fee_type f) then g * Fin 0.1 else 0)) of
       None \<Rightarrow> (Invalid_Input, a)
     | Some fee \<Rightarrow> (if insert_ok e then Success else Database_Error,
           a\<lparr>transactions := transactions a @
             [Income (new_id e) (today e) (entry_inc_name f) g fee (g - fee)
                (chk_paypal_var f = ''on'')]\<rparr>))"
  using assms
  by (simp add: add_income_def Let_def saved_def add_transaction_to_db_def split: option.splits)

text \<open>
  C2, as stated, fails: nan is a value \<^verbatim>\<open>float\<close> returns for an entry, and every
  comparison with nan is false. With \<open>dzd_cash = 3000\<close>, a DZD expense whose amount is
  nan passes the test \<^verbatim>\<open>s['dzd_cash'] < amt\<close> and is appended, although
  \<open>dzd_cash \<ge> amount\<close> does not hold.
\<close>

theorem guard_accepts_nan:
  "add_expense \<lparr>new_id = ''e1'', today = ''2024-03-31'', insert_ok = True\<rparr>
     \<lparr>entry_exp_desc = ''rent'', entry_exp_amount = Some NaN, combo_exp_cat = ''Essentials'',
      combo_exp_curr = ''DZD (Cash)''\<rparr>
     \<lparr>transactions = [Income ''i1'' ''2024-03-01'' ''job'' (Fin 15) 0 (Fin 15) False,
                      TransferUsdDzd ''x1'' ''2024-03-02'' (Fin 15) (Fin 200) (Fin 3000)],
      display_rate = Fin 200, selected_year = 2024, selected_month = 3\<rparr>
   = (Success,
      \<lparr>transactions = [Income ''i1'' ''2024-03-01'' ''job'' (Fin 15) 0 (Fin 15) False,
                       TransferUsdDzd ''x1'' ''2024-03-02'' (Fin 15) (Fin 200) (Fin 3000),
                       Expense ''e1'' ''2024-03-31'' ''Essentials - rent'' NaN DZD],
       display_rate = Fin 200, selected_year = 2024, selected_month = 3\<rparr>)
   \<and> dzd_cash (calculate_stats
        \<lparr>transactions = [Income ''i1'' ''2024-03-01'' ''job'' (Fin 15) 0 (Fin 15) False,
                         TransferUsdDzd ''x1'' ''2024-03-02'' (Fin 15) (Fin 200) (Fin 3000)],
         display_rate = Fin 200, selected_year = 2024, selected_month = 3\<rparr>) = Fin 3000
   \<and> \<not> (Fin 3000 \<ge> NaN)"
proof -
  have bal: "dzd_cash (calculate_stats
        \<lparr>transactions = [Income ''i1'' ''2024-03-01'' ''job'' (Fin 15) 0 (Fin 15) False,
                         TransferUsdDzd ''x1'' ''2024-03-02'' (Fin 15) (Fin 200) (Fin 3000)],
         display_rate = Fin 200, selected_year = 2024, selected_month = 3\<rparr>) = Fin 3000"
    by (simp add: stats_simps render_simps pyfloat_simps)
  show ?thesis
    by (simp add: add_expense_cases bal pyfloat_nan_compare)
qed

text \<open>
  C2, amended. With the balances computed from the ledger as it is before the proposal,
  and when neither the amount nor the balance is nan: a USD expense and a USD to DZD
  transfer pass the guard if and only if \<open>usd_savings \<ge> amount\<close>, a DZD expense if and
  only if \<open>dzd_cash \<ge> amount\<close>, a PayPal to bank transfer if and only if
  \<open>paypal_balance \<ge> amount_sent\<close>; passing the guard is the same as the ledger growing.
  A DZD expense of 5000 is refused, and nothing changes, when \<open>dzd_cash = 3000\<close>; it is
  appended when \<open>dzd_cash = 5000\<close>.
\<close>

theorem sufficiency_guard_numbers:
  fixes a :: "pyfloat app"
  shows
  "(entry_exp_amount f = Some amt \<and> py_in ''USD'' (combo_exp_curr f)
      \<and> amt \<noteq> NaN \<and> usd_savings (calculate_stats a) \<noteq> NaN \<longrightarrow>
      (fst (add_expense e f a) \<noteq> Insufficient_Funds) = (usd_savings (calculate_stats a) \<ge> amt)
    \<and> (transactions (snd (add_expense e f a)) \<noteq> transactions a)
        = (usd_savings (calculate_stats a) \<ge> amt))
 \<and> (entry_exp_amount f = Some amt \<and> \<not> py_in ''USD'' (combo_exp_curr f)
      \<and> amt \<noteq> NaN \<and> dzd_cash (calculate_stats a) \<noteq> NaN \<longrightarrow>
      (fst (add_expense e f a) \<noteq> Insufficient_Funds) = (dzd_cash (calculate_stats a) \<ge> amt)
    \<and> (transactions (snd (add_expense e f a)) \<noteq> transactions a)
        = (dzd_cash (calculate_stats a) \<ge> amt))
 \<and> (entry_ex_usd x = Some usd \<and> entry_ex_rate x = Some r
      \<and> usd \<noteq> NaN \<and> usd_savings (calculate_stats a) \<noteq> NaN \<longrightarrow>
      (fst (transfer_usd_to_dzd e x a) \<noteq> Insufficient_Funds)
        = (usd_savings (calculate_stats a) \<ge> usd)
    \<and> (transactions (snd (transfer_usd_to_dzd e x a)) \<noteq> transactions a)
        = (usd_savings (calculate_stats a) \<ge> usd))
 \<and> (entry_pp_amount p = Some sent
      \<and> sent \<noteq> NaN \<and> paypal_balance (calculate_stats a) \<noteq> NaN \<longrightarrow>
      (fst (transfer_paypal_to_bank e p a) \<noteq> Insufficient_Funds)
        = (paypal_balance (calculate_stats a) \<ge> sent)
    \<and> (transactions (snd (transfer_paypal_to_bank e p a)) \<noteq> transactions a)
        = (paypal_balance (calculate_stats a) \<ge> sent))
 \<and> (entry_exp_amount f = Some (Fin 5000) \<and> \<not> py_in ''USD'' (combo_exp_curr f)
      \<and> dzd_cash (calculate_stats a) = Fin 3000 \<longrightarrow>
      add_expense e f a = (Insufficient_Funds, a))
 \<and> (entry_exp_amount f = Some (Fin 5000) \<and> \<not> py_in ''USD'' (combo_exp_curr f)
      \<and> dzd_cash (calculate_stats a) = Fin 5000 \<longrightarrow>
      fst (add_expense e f a) \<noteq> Insufficient_Funds
      \<and> transactions (snd (add_expense e f a)) = transactions a @
           [Expense (new_id e) (today e) (combo_exp_cat f @ '' - '' @ entry_exp_desc f)
              (Fin 5000) DZD])"
  by (auto simp add: add_expense_cases transfer_usd_to_dzd_cases transfer_paypal_to_bank_cases
      Let_def pyfloat_le_iff_not_less pyfloat_Fin_arith)

theorem sufficiency_guard_numbers_witness:
  "add_expense \<lparr>new_id = ''e1'', today = ''2024-03-31'', insert_ok = True\<rparr>
     \<lparr>entry_exp_desc = ''rent'', entry_exp_amount = Some (Fin 5000),
      combo_exp_cat = ''Essentials'', combo_exp_curr = ''DZD (Cash)''\<rparr>
     \<lparr>transactions = [Income ''i1'' ''2024-03-01'' ''job'' (Fin 15) 0 (Fin 15) False,
                      TransferUsdDzd ''x1'' ''2024-03-02'' (Fin 15) (Fin 200) (Fin 3000)],
      display_rate = Fin 200, selected_year = 2024, selected_month = 3\<rparr>
   = (Insufficient_Funds,
      \<lparr>transactions = [Income ''i1'' ''2024-03-01'' ''job'' (Fin 15) 0 (Fin 15) False,
                       TransferUsdDzd ''x1'' ''2024-03-02'' (Fin 15) (Fin 200) (Fin 3000)],
       display_rate = Fin 200, selected_year = 2024, selected_month = 3\<rparr>)
 \<and> transactions (snd (add_expense \<lparr>new_id = ''e1'', today = ''2024-03-31'', insert_ok = True\<rparr>
     \<lparr>entry_exp_desc = ''rent'', entry_exp_amount = Some (Fin 5000),
      combo_exp_cat = ''Essentials'', combo_exp_curr = ''DZD (Cash)''\<rparr>
     \<lparr>transactions = [Income ''i1'' ''2024-03-01'' ''job'' (Fin 25) 0 (Fin 25) False,
                      TransferUsdDzd ''x1'' ''2024-03-02'' (Fin 25) (Fin 200) (Fin 5000)],
      display_rate = Fin 200, selected_year = 2024, selected_month = 3\<rparr>))
   = [Income ''i1'' ''2024-03-01'' ''job'' (Fin 25) 0 (Fin 25) False,
      TransferUsdDzd ''x1'' ''2024-03-02'' (Fin 25) (Fin 200) (Fin 5000),
      Expense ''e1'' ''2024-03-31'' ''Essentials - rent'' (Fin 5000) DZD]"
proof -
  have b1: "dzd_cash (calculate_stats
        \<lparr>transactions = [Income ''i1'' ''2024-03-01'' ''job'' (Fin 15) 0 (Fin 15) False,
                         TransferUsdDzd ''x1'' ''2024-03-02'' (Fin 15) (Fin 200) (Fin 3000)],
         display_rate = Fin 200, selected_year = 2024, selected_month = 3\<rparr>) = Fin 3000"
    by (simp add: stats_simps render_simps pyfloat_simps)
  have b2: "dzd_cash (calculate_stats
        \<lparr>transactions = [Income ''i1'' ''2024-03-01'' ''job'' (Fin 25) 0 (Fin 25) False,
                         TransferUsdDzd ''x1'' ''2024-03-02'' (Fin 25) (Fin 200) (Fin 5000)],
         display_rate = Fin 200, selected_year = 2024, selected_month = 3\<rparr>) = Fin 5000"
    by (simp add: stats_simps render_simps pyfloat_simps)
  show ?thesis
    using b1 b2
      sufficiency_guard_numbers [of
        "\<lparr>entry_exp_desc = ''rent'', entry_exp_amount = Some (Fin 5000),
          combo_exp_cat = ''Essentials'', combo_exp_curr = ''DZD (Cash)''\<rparr>" "Fin 5000"
        "\<lparr>transactions = [Income ''i1'' ''2024-03-01'' ''job'' (Fin 15) 0 (Fin 15) False,
                          TransferUsdDzd ''x1'' ''2024-03-02'' (Fin 15) (Fin 200) (Fin 3000)],
          display_rate = Fin 200, selected_year = 2024, selected_month = 3\<rparr>"
        "\<lparr>new_id = ''e1'', today = ''2024-03-31'', insert_ok = True\<rparr>"]
      sufficiency_guard_numbers [of
        "\<lparr>entry_exp_desc = ''rent'', entry_exp_amount = Some (Fin 5000),
          combo_exp_cat = ''Essentials'', combo_exp_curr = ''DZD (Cash)''\<rparr>" "Fin 5000"
        "\<lparr>transactions = [Income ''i1'' ''2024-03-01'' ''job'' (Fin 25) 0 (Fin 25) False,
                          TransferUsdDzd ''x1'' ''2024-03-02'' (Fin 25) (Fin 200) (Fin 5000)],
          display_rate = Fin 200, selected_year = 2024, selected_month = 3\<rparr>"
        "\<lparr>new_id = ''e1'', today = ''2024-03-31'', insert_ok = True\<rparr>"]
    by simp
qed

subsection \<open>Net worth\<close>

text \<open>
  C7. The net worth expression always returns a number, never
  \<^verbatim>\<open>ZeroDivisionError\<close>: \<open>usd_savings + paypal_balance + dzd_cash / display_rate\<close>
  when the rate is positive, and \<open>usd_savings + paypal_balance\<close> when it is zero or
  negative, where no division is made.
\<close>

theorem total_nw_guarded:
  "total_nw s r = Inr (if r > 0 then usd_savings s + paypal_balance s + dzd_cash s / r
                       else usd_savings s + paypal_balance s)"
  by (simp add: total_nw_def py_truediv_def)

subsection \<open>Append and delete\<close>

lemma add_transaction_to_db_snd:
  "snd (add_transaction_to_db ok t a) = a\<lparr>transactions := transactions a @ [t]\<rparr>"
  by (simp add: add_transaction_to_db_def Let_def)

lemma add_transaction_to_db_fst: "fst (add_transaction_to_db ok t a) = ok"
  by (simp add: add_transaction_to_db_def Let_def)

text \<open>
  C8. When the insert fails, \<^verbatim>\<open>add_transaction_to_db\<close> returns \<^verbatim>\<open>False\<close> and the
  list in memory is the old list with the transaction at its end: the transaction is
  kept, the old list is not restored.
\<close>

theorem add_transaction_to_db_failure_keeps:
  "add_transaction_to_db False t a = (False, a\<lparr>transactions := transactions a @ [t]\<rparr>)
   \<and> transactions (snd (add_transaction_to_db False t a)) \<noteq> transactions a"
  by (simp add: add_transaction_to_db_def Let_def)

text \<open>
  C9. If no transaction of the ledger has the id of \<open>t\<close>, appending \<open>t\<close> (whether the
  insert succeeds or not) and then deleting by that id, the dialog confirmed, gives back
  the ledger, and with it the three balances.
\<close>

theorem append_then_delete_restores:
  fixes a :: "('a::{zero,plus,minus}) app"
  assumes "\<forall>u \<in> set (transactions a). txn_id u \<noteq> txn_id t"
  shows "delete_transaction True (txn_id t) (snd (add_transaction_to_db ok t a)) = a
    \<and> usd_savings (calculate_stats
          (delete_transaction True (txn_id t) (snd (add_transaction_to_db ok t a))))
        = usd_savings (calculate_stats a)
    \<and> paypal_balance (calculate_stats
          (delete_transaction True (txn_id t) (snd (add_transaction_to_db ok t a))))
        = paypal_balance (calculate_stats a)
    \<and> dzd_cash (calculate_stats
          (delete_transaction True (txn_id t) (snd (add_transaction_to_db ok t a))))
        = dzd_cash (calculate_stats a)"
proof -
  have "filter (\<lambda>u. txn_id u \<noteq> txn_id t) (transactions a) = transactions a"
    using assms by (auto simp: filter_id_conv)
  then have "delete_transaction True (txn_id t) (snd (add_transaction_to_db ok t a)) = a"
    by (simp add: delete_transaction_def add_transaction_to_db_snd)
  then show ?thesis by simp
qed

theorem append_then_delete_restores_witness:
  "txn_id (Income ''i1'' ''2024-03-01'' ''job'' (100::real) 10 90 False) \<noteq> ''e1''
   \<and> delete_transaction True ''e1''
       (snd (add_transaction_to_db True (Expense ''e1'' ''2024-03-31'' ''Other - tea'' 40 USD)
          \<lparr>transactions = [Income ''i1'' ''2024-03-01'' ''job'' (100::real) 10 90 False],
           display_rate = 200, selected_year = 2024, selected_month = 3\<rparr>))
     = \<lparr>transactions = [Income ''i1'' ''2024-03-01'' ''job'' 100 10 90 False],
        display_rate = 200, selected_year = 2024, selected_month = 3\<rparr>"
  using append_then_delete_restores [of
      "\<lparr>transactions = [Income ''i1'' ''2024-03-01'' ''job'' (100::real) 10 90 False],
        display_rate = 200, selected_year = 2024, selected_month = 3\<rparr>"
      "Expense ''e1'' ''2024-03-31'' ''Other - tea'' 40 USD" True]
  by simp

text \<open>
  C10. Deleting by id, the dialog confirmed, keeps every transaction with another id, as
  often as it occurred and in the order it had, and keeps no transaction with that id.
  When no transaction has the id, the application state is unchanged, so the balances and
  the monthly totals are unchanged.
\<close>

theorem delete_transaction_exact:
  fixes a :: "('a::{zero,plus,minus}) app"
  shows "mset (transactions (delete_transaction True tid a))
           = filter_mset (\<lambda>t. txn_id t \<noteq> tid) (mset (transactions a))
     \<and> subseq (transactions (delete_transaction True tid a)) (transactions a)
     \<and> ((\<forall>u \<in> set (transactions a). txn_id u \<noteq> tid) \<longrightarrow>
          delete_transaction True tid a = a
          \<and> calculate_stats (delete_transaction True tid a) = calculate_stats a)"
proof -
  have "\<forall>u \<in> set (transactions a). txn_id u \<noteq> tid \<Longrightarrow>
      filter (\<lambda>u. txn_id u \<noteq> tid) (transactions a) = transactions a"
    by (auto simp: filter_id_conv)
  then show ?thesis
    by (auto simp add: delete_transaction_def)
qed

theorem delete_transaction_exact_witness:
  "txn_id (Income ''i1'' ''2024-03-01'' ''job'' (100::real) 10 90 False) \<noteq> ''zz''
   \<and> txn_id (Expense ''e1'' ''2024-03-31'' ''Other - tea'' (40::real) USD) \<noteq> ''zz''
   \<and> calculate_stats (delete_transaction True ''zz''
        \<lparr>transactions = [Income ''i1'' ''2024-03-01'' ''job'' (100::real) 10 90 False,
                         Expense ''e1'' ''2024-03-31'' ''Other - tea'' 40 USD],
         display_rate = 200, selected_year = 2024, selected_month = 3\<rparr>)
     = calculate_stats
        \<lparr>transactions = [Income ''i1'' ''2024-03-01'' ''job'' (100::real) 10 90 False,
                         Expense ''e1'' ''2024-03-31'' ''Other - tea'' 40 USD],
         display_rate = 200, selected_year = 2024, selected_month = 3\<rparr>"
  using delete_transaction_exact [of "''zz''"
      "\<lparr>transactions = [Income ''i1'' ''2024-03-01'' ''job'' (100::real) 10 90 False,
                        Expense ''e1'' ''2024-03-31'' ''Other - tea'' 40 USD],
        display_rate = 200, selected_year = 2024, selected_month = 3\<rparr>"]
  by simp

subsection \<open>Income: fee and net amount\<close>

text \<open>
  C6. An income built from the gross amount \<open>g\<close> carries the fee 0 under "No Fee",
  \<open>0.10 * g\<close> under "Upwork (10%)" and the entered value under "Transaction Fee
  (Manual)", and its net amount is \<open>g\<close> minus that fee. Whatever the text of the combo
  box, an appended income has \<open>net_amount = amount - fee_amount\<close> and one of the
  three fees, chosen by the words "Manual" and "Upwork" in the text. This holds for every
  value of the entries, the infinities and nan included.
\<close>

theorem add_income_fee_and_net:
  assumes "entry_inc_amount f = Some g"
  shows
  "(combo_fee_type f = ''No Fee'' \<longrightarrow>
      transactions (snd (add_income e f a)) = transactions a @
        [Income (new_id e) (today e) (entry_inc_name f) g 0 (g - 0) (chk_paypal_var f = ''on'')])
 \<and> (combo_fee_type f = ''Upwork (10%)'' \<longrightarrow>
      transactions (snd (add_income e f a)) = transactions a @
        [Income (new_id e) (today e) (entry_inc_name f) g (Fin 0.10 * g) (g - Fin 0.10 * g)
           (chk_paypal_var f = ''on'')])
 \<and> (combo_fee_type f = ''Transaction Fee (Manual)'' \<and> entry_fee_val f = Some v \<longrightarrow>
      transactions (snd (add_income e f a)) = transactions a @
        [Income (new_id e) (today e) (entry_inc_name f) g v (g - v) (chk_paypal_var f = ''on'')])
 \<and> (\<forall>t. transactions (snd (add_income e f a)) = transactions a @ [t] \<longrightarrow>
        amount t = g \<and> net_amount t = amount t - fee_amount t
        \<and> (if py_in ''Manual'' (combo_fee_type f) then entry_fee_val f = Some (fee_amount t)
           else if py_in ''Upwork'' (combo_fee_type f) then fee_amount t = Fin 0.10 * g
           else fee_amount t = 0))"
  using assms
  by (auto simp add: add_income_cases pyfloat_mult_commute [of g "Fin (1 / 10)"]
      split: option.splits)

theorem add_income_fee_and_net_witness:
 "transactions (snd (add_income \<lparr>new_id = ''i1'', today = ''2024-03-31'', insert_ok = True\<rparr>
     \<lparr>entry_inc_name = ''job'', entry_inc_amount = Some (Fin 1000),
      combo_fee_type = ''Upwork (10%)'', entry_fee_val = None, chk_paypal_var = ''off''\<rparr>
     \<lparr>transactions = [], display_rate = Fin 200, selected_year = 2024, selected_month = 3\<rparr>))
   = [Income ''i1'' ''2024-03-31'' ''job'' (Fin 1000) (Fin 100) (Fin 900) False]"
  using add_income_fee_and_net [of
      "\<lparr>entry_inc_name = ''job'', entry_inc_amount = Some (Fin 1000),
        combo_fee_type = ''Upwork (10%)'', entry_fee_val = None, chk_paypal_var = ''off''\<rparr>"
      "Fin 1000" "\<lparr>new_id = ''i1'', today = ''2024-03-31'', insert_ok = True\<rparr>"
      "\<lparr>transactions = [], display_rate = Fin 200, selected_year = 2024, selected_month = 3\<rparr>"]
  by (simp add: pyfloat_Fin_arith)

subsection \<open>Signs of the constructed amounts\<close>

lemma pyfloat_zero_le_Fin: "(0 \<le> Fin x) = (0 \<le> x)"
  by (auto simp: pyfloat_simps)

text \<open>
  C5, as stated, fails: the four actions never look at signs. A gross amount of -100 is
  appended as it is; a manual fee of 25 on a gross amount of 10 gives the net amount -15;
  a PayPal transfer of 3 with the 5 dollar fee gives the amount received -2. An entry
  can also be infinite: the gross amount inf under "Upwork (10%)" gives the net amount
  \<open>inf - inf\<close>, which is nan, and 0 dollars sold at the rate inf give the amount
  \<open>0 * inf\<close>, nan again; nan is not \<open>\<ge> 0\<close>.
\<close>

theorem accepted_negative_fields:
  "add_income \<lparr>new_id = ''i1'', today = ''2024-03-31'', insert_ok = True\<rparr>
     \<lparr>entry_inc_name = ''job'', entry_inc_amount = Some (Fin (- 100)), combo_fee_type = ''No Fee'',
      entry_fee_val = None, chk_paypal_var = ''off''\<rparr>
     \<lparr>transactions = [], display_rate = Fin 200, selected_year = 2024, selected_month = 3\<rparr>
   = (Success, \<lparr>transactions = [Income ''i1'' ''2024-03-31'' ''job'' (Fin (- 100)) (Fin 0) (Fin (- 100)) False],
        display_rate = Fin 200, selected_year = 2024, selected_month = 3\<rparr>)
  \<and> \<not> monetary_fields_nonneg (Income ''i1'' ''2024-03-31'' ''job'' (Fin (- 100)) (Fin 0) (Fin (- 100)) False)
  \<and> add_income \<lparr>new_id = ''i2'', today = ''2024-03-31'', insert_ok = True\<rparr>
     \<lparr>entry_inc_name = ''job'', entry_inc_amount = Some (Fin 10),
      combo_fee_type = ''Transaction Fee (Manual)'', entry_fee_val = Some (Fin 25),
      chk_paypal_var = ''on''\<rparr>
     \<lparr>transactions = [], display_rate = Fin 200, selected_year = 2024, selected_month = 3\<rparr>
   = (Success, \<lparr>transactions = [Income ''i2'' ''2024-03-31'' ''job'' (Fin 10) (Fin 25) (Fin (- 15)) True],
        display_rate = Fin 200, selected_year = 2024, selected_month = 3\<rparr>)
  \<and> \<not> monetary_fields_nonneg (Income ''i2'' ''2024-03-31'' ''job'' (Fin 10) (Fin 25) (Fin (- 15)) True)
  \<and> transfer_paypal_to_bank \<lparr>new_id = ''p1'', today = ''2024-03-31'', insert_ok = True\<rparr>
     \<lparr>entry_pp_amount = Some (Fin 3), combo_pp_method = ''Manual ($5 Fee)''\<rparr>
     \<lparr>transactions = [Income ''i3'' ''2024-03-30'' ''job'' (Fin 3) (Fin 0) (Fin 3) True],
      display_rate = Fin 200, selected_year = 2024, selected_month = 3\<rparr>
   = (Success, \<lparr>transactions = [Income ''i3'' ''2024-03-30'' ''job'' (Fin 3) (Fin 0) (Fin 3) True,
                                 TransferPaypalBank ''p1'' ''2024-03-31'' (Fin 3) (Fin 5) (Fin (- 2))],
        display_rate = Fin 200, selected_year = 2024, selected_month = 3\<rparr>)
  \<and> \<not> monetary_fields_nonneg (TransferPaypalBank ''p1'' ''2024-03-31'' (Fin 3) (Fin 5) (Fin (- 2)))
  \<and> add_income \<lparr>new_id = ''i4'', today = ''2024-03-31'', insert_ok = True\<rparr>
     \<lparr>entry_inc_name = ''job'', entry_inc_amount = Some PInf, combo_fee_type = ''Upwork (10%)'',
      entry_fee_val = None, chk_paypal_var = ''off''\<rparr>
     \<lparr>transactions = [], display_rate = Fin 200, selected_year = 2024, selected_month = 3\<rparr>
   = (Success, \<lparr>transactions = [Income ''i4'' ''2024-03-31'' ''job'' PInf PInf NaN False],
        display_rate = Fin 200, selected_year = 2024, selected_month = 3\<rparr>)
  \<and> \<not> monetary_fields_nonneg (Income ''i4'' ''2024-03-31'' ''job'' PInf PInf NaN False)
  \<and> transfer_usd_to_dzd \<lparr>new_id = ''x4'', today = ''2024-03-31'', insert_ok = True\<rparr>
     \<lparr>entry_ex_usd = Some (Fin 0), entry_ex_rate = Some PInf\<rparr>
     \<lparr>transactions = [], display_rate = Fin 200, selected_year = 2024, selected_month = 3\<rparr>
   = (Success, \<lparr>transactions = [TransferUsdDzd ''x4'' ''2024-03-31'' (Fin 0) PInf NaN],
        display_rate = Fin 200, selected_year = 2024, selected_month = 3\<rparr>)
  \<and> \<not> monetary_fields_nonneg (TransferUsdDzd ''x4'' ''2024-03-31'' (Fin 0) PInf NaN)"
proof -
  have pb: "paypal_balance (calculate_stats
      \<lparr>transactions = [Income ''i3'' ''2024-03-30'' ''job'' (Fin 3) (Fin 0) (Fin 3) True],
       display_rate = Fin 200, selected_year = 2024, selected_month = 3\<rparr>) = Fin 3"
    by (simp add: stats_simps render_simps pyfloat_simps)
  have ub: "usd_savings (calculate_stats
      \<lparr>transactions = ([] :: pyfloat transaction list),
       display_rate = Fin 200, selected_year = 2024, selected_month = 3\<rparr>) = Fin 0"
    by (simp add: stats_simps pyfloat_simps)
  show ?thesis
    by (simp add: add_income_cases transfer_paypal_to_bank_cases transfer_usd_to_dzd_cases
        pb ub pyfloat_simps)
qed

text \<open>
  C5, amended. Every monetary field of an appended transaction is non-negative when the
  numbers entered are finite and non-negative (gross amount, manual fee, expense amount,
  dollar amount, exchange rate, PayPal amount), the manual fee is at most the gross
  amount, and a PayPal transfer with the 5 dollar fee sends at least 5.
\<close>

theorem constructed_fields_nonneg:
  "(entry_inc_amount fi = Some (Fin g) \<and> 0 \<le> g
      \<and> (py_in ''Manual'' (combo_fee_type fi) \<longrightarrow>
           (\<forall>v. entry_fee_val fi = Some v \<longrightarrow> (\<exists>r. v = Fin r \<and> 0 \<le> r \<and> r \<le> g)))
      \<and> transactions (snd (add_income e fi a)) = transactions a @ [t1]
      \<longrightarrow> monetary_fields_nonneg t1)
 \<and> (entry_exp_amount fe = Some (Fin amt) \<and> 0 \<le> amt
      \<and> transactions (snd (add_expense e fe a)) = transactions a @ [t2]
      \<longrightarrow> monetary_fields_nonneg t2)
 \<and> (entry_ex_usd fx = Some (Fin usd) \<and> entry_ex_rate fx = Some (Fin r) \<and> 0 \<le> usd \<and> 0 \<le> r
      \<and> transactions (snd (transfer_usd_to_dzd e fx a)) = transactions a @ [t3]
      \<longrightarrow> monetary_fields_nonneg t3)
 \<and> (entry_pp_amount fp = Some (Fin sent) \<and> 0 \<le> sent
      \<and> (py_in ''Manual'' (combo_pp_method fp) \<longrightarrow> 5 \<le> sent)
      \<and> transactions (snd (transfer_paypal_to_bank e fp a)) = transactions a @ [t4]
      \<longrightarrow> monetary_fields_nonneg t4)"
  by (auto simp add: add_income_cases add_expense_cases transfer_usd_to_dzd_cases
      transfer_paypal_to_bank_cases Let_def pyfloat_Fin_arith pyfloat_zero_le_Fin zero_pyfloat_def
      split: option.splits if_splits)

theorem constructed_fields_nonneg_witness:
  "transactions (snd (add_income \<lparr>new_id = ''i1'', today = ''2024-03-31'', insert_ok = True\<rparr>
     \<lparr>entry_inc_name = ''job'', entry_inc_amount = Some (Fin 1000),
      combo_fee_type = ''Upwork (10%)'', entry_fee_val = None, chk_paypal_var = ''off''\<rparr>
     \<lparr>transactions = [], display_rate = Fin 200, selected_year = 2024, selected_month = 3\<rparr>))
   = [] @ [Income ''i1'' ''2024-03-31'' ''job'' (Fin 1000) (Fin 100) (Fin 900) False]
   \<and> monetary_fields_nonneg (Income ''i1'' ''2024-03-31'' ''job'' (Fin 1000) (Fin 100) (Fin 900) False)"
  using constructed_fields_nonneg [of
      "\<lparr>entry_inc_name = ''job'', entry_inc_amount = Some (Fin 1000),
        combo_fee_type = ''Upwork (10%)'', entry_fee_val = None, chk_paypal_var = ''off''\<rparr>" 1000
      "\<lparr>new_id = ''i1'', today = ''2024-03-31'', insert_ok = True\<rparr>"
      "\<lparr>transactions = [], display_rate = Fin 200, selected_year = 2024, selected_month = 3\<rparr>"
      "Income ''i1'' ''2024-03-31'' ''job'' (Fin 1000) (Fin 100) (Fin 900) False"]
  by (simp add: add_income_cases pyfloat_Fin_arith)

subsection \<open>The monthly key against the calendar\<close>

lemma digit_char_inj: "i < 10 \<Longrightarrow> j < 10 \<Longrightarrow> digit_char i = digit_char j \<longleftrightarrow> i = j"
  unfolding digit_char_def by (rule nth_eq_iff_index_eq) simp_all

lemma digit_char_not_dash: "i < 10 \<Longrightarrow> digit_char i \<noteq> CHR ''-''"
proof -
  assume "i < 10"
  then have "digit_char i \<in> set ''0123456789''"
    unfolding digit_char_def by (intro nth_mem) simp
  then show ?thesis by auto
qed

lemma digit_char_0: "digit_char 0 = CHR ''0''"
  by (simp add: digit_char_def)

lemma str_nat_no_dash: "CHR ''-'' \<notin> set (str_nat n)"
proof (induction n rule: str_nat.induct)
  case (1 n)
  show ?case
  proof (cases "n < 10")
    case True
    then show ?thesis using digit_char_not_dash[of n] by (simp add: str_nat.simps[of n])
  next
    case False
    then show ?thesis using 1 digit_char_not_dash[of "n mod 10"]
      by (simp add: str_nat.simps[of n])
  qed
qed

lemma str_nat_nonempty: "str_nat n \<noteq> []"
  by (cases "n < 10") (simp_all add: str_nat.simps[of n])

lemma str_nat_inj: "str_nat a = str_nat b \<Longrightarrow> a = b"
proof (induction a arbitrary: b rule: str_nat.induct)
  case (1 a)
  show ?case
  proof (cases "a < 10")
    case a: True
    show ?thesis
    proof (cases "b < 10")
      case True
      with a 1(2) show ?thesis by (simp add: str_nat.simps[of a] str_nat.simps[of b] digit_char_inj)
    next
      case False
      with a 1(2) show ?thesis using str_nat_nonempty[of "b div 10"]
        by (simp add: str_nat.simps[of a] str_nat.simps[of b] Cons_eq_append_conv)
    qed
  next
    case a: False
    show ?thesis
    proof (cases "b < 10")
      case True
      with a 1(2) show ?thesis using str_nat_nonempty[of "a div 10"]
        by (simp add: str_nat.simps[of a] str_nat.simps[of b] append_eq_Cons_conv)
    next
      case False
      with a 1(2) have e: "str_nat (a div 10) = str_nat (b div 10)"
          and d: "digit_char (a mod 10) = digit_char (b mod 10)"
        by (simp_all add: str_nat.simps[of a] str_nat.simps[of b])
      from 1(1)[OF a e] have "a div 10 = b div 10" .
      moreover from d have "a mod 10 = b mod 10" by (simp add: digit_char_inj)
      ultimately show ?thesis by (metis div_mult_mod_eq)
    qed
  qed
qed

lemma str_nat_4:
  assumes "1000 \<le> y" "y \<le> 9999"
  shows "length (str_nat y) = 4"
proof -
  have "\<not> y < 10" "\<not> y div 10 < 10" "\<not> y div 10 div 10 < 10" "y div 10 div 10 div 10 < 10"
    using assms by arith+
  then show ?thesis
    by (simp add: str_nat.simps[of y] str_nat.simps[of "y div 10"]
        str_nat.simps[of "y div 10 div 10"] str_nat.simps[of "y div 10 div 10 div 10"])
qed

lemma zfill_2_small:
  assumes "k < 100"
  shows "zfill 2 (str_nat k) = [digit_char (k div 10), digit_char (k mod 10)]"
proof (cases "k < 10")
  case True
  then show ?thesis by (simp add: zfill_def str_nat.simps[of k] digit_char_0)
next
  case False
  with assms have "k div 10 < 10" by arith
  with False show ?thesis
    by (simp add: zfill_def str_nat.simps[of k] str_nat.simps[of "k div 10"])
qed

lemma str_nat_long:
  assumes "100 \<le> k"
  shows "3 \<le> length (str_nat k)"
proof -
  have "\<not> k < 10" "\<not> k div 10 < 10" using assms by arith+
  then show ?thesis using str_nat_nonempty[of "k div 10 div 10"]
    by (simp add: str_nat.simps[of k] str_nat.simps[of "k div 10"] Suc_le_eq)
qed

lemma prefix_sep:
  "c \<notin> set a \<Longrightarrow> c \<notin> set b \<Longrightarrow> prefix (a @ c # r) (b @ c # s) \<longleftrightarrow> a = b \<and> prefix r s"
proof (induction a arbitrary: b)
  case Nil
  then show ?case by (cases b) auto
next
  case (Cons x a)
  then show ?case by (cases b) auto
qed

lemma prefix_before_sep:
  "c \<notin> set p \<Longrightarrow> prefix p (b @ c # s) \<longleftrightarrow> prefix p b"
proof (induction p arbitrary: b)
  case Nil
  then show ?case by simp
next
  case (Cons x p)
  then show ?case by (cases b) auto
qed
lemma month_prefix_iff:
  assumes "m \<le> 12"
  shows "prefix (fmt_02d M) (zfill 2 (str_nat m) @ CHR ''-'' # dd) \<longleftrightarrow> M = int m"
proof -
  have mm: "zfill 2 (str_nat m) = [digit_char (m div 10), digit_char (m mod 10)]"
    using assms by (simp add: zfill_2_small)
  have md: "m div 10 < 10" "m mod 10 < 10" using assms by arith+
  show ?thesis
  proof (cases "M < 0")
    case True
    then show ?thesis using digit_char_not_dash[OF md(1)]
      by (auto simp add: fmt_02d_def mm)
  next
    case False
    define k where "k = nat M"
    have fmt: "fmt_02d M = zfill 2 (str_nat k)" using False by (simp add: fmt_02d_def k_def)
    have Mk: "M = int m \<longleftrightarrow> k = m" using False by (auto simp: k_def)
    show ?thesis
    proof (cases "k < 100")
      case True
      then have kd: "k div 10 < 10" "k mod 10 < 10" by arith+
      have "prefix (fmt_02d M) (zfill 2 (str_nat m) @ CHR ''-'' # dd)
          \<longleftrightarrow> digit_char (k div 10) = digit_char (m div 10) \<and> digit_char (k mod 10) = digit_char (m mod 10)"
        by (simp add: fmt mm zfill_2_small[OF True])
      also have "\<dots> \<longleftrightarrow> k div 10 = m div 10 \<and> k mod 10 = m mod 10"
        using kd md by (simp add: digit_char_inj)
      also have "\<dots> \<longleftrightarrow> k = m" by (metis div_mult_mod_eq)
      finally show ?thesis using Mk by simp
    next
      case False
      then have len: "3 \<le> length (str_nat k)" by (simp add: str_nat_long)
      then have z: "zfill 2 (str_nat k) = str_nat k" by (simp add: zfill_def)
      have "\<not> prefix (str_nat k) (zfill 2 (str_nat m) @ CHR ''-'' # dd)"
      proof
        assume "prefix (str_nat k) (zfill 2 (str_nat m) @ CHR ''-'' # dd)"
        then have "prefix (str_nat k) (zfill 2 (str_nat m))"
          by (simp add: prefix_before_sep str_nat_no_dash)
        then have "length (str_nat k) \<le> 2" using prefix_length_le[of "str_nat k" "zfill 2 (str_nat m)"]
          by (simp add: mm)
        with len show False by simp
      qed
      moreover have "k \<noteq> m" using False assms by simp
      ultimately show ?thesis using Mk by (simp add: fmt z)
    qed
  qed
qed

lemma key_prefix_iff:
  assumes "1000 \<le> y" "y \<le> 9999" "m \<le> 12"
  shows "prefix (str_int Y @ ''-'' @ fmt_02d M) (strftime_ymd y m d) \<longleftrightarrow> Y = int y \<and> M = int m"
proof -
  have yy: "zfill 4 (str_nat y) = str_nat y" using assms by (simp add: zfill_def str_nat_4)
  have date: "strftime_ymd y m d = str_nat y @ CHR ''-'' # (zfill 2 (str_nat m) @ CHR ''-'' # zfill 2 (str_nat d))"
    by (simp add: strftime_ymd_def yy)
  show ?thesis
  proof (cases "Y < 0")
    case True
    obtain c cs where cs: "str_nat y = c # cs" using str_nat_nonempty[of y] by (cases "str_nat y") auto
    have "c \<noteq> CHR ''-''" using str_nat_no_dash[of y] cs by auto
    then show ?thesis using True by (auto simp add: str_int_def date cs)
  next
    case False
    then have "prefix (str_int Y @ ''-'' @ fmt_02d M) (strftime_ymd y m d)
       \<longleftrightarrow> str_nat (nat Y) = str_nat y \<and> prefix (fmt_02d M) (zfill 2 (str_nat m) @ CHR ''-'' # zfill 2 (str_nat d))"
      by (simp add: str_int_def date prefix_sep str_nat_no_dash)
    also have "\<dots> \<longleftrightarrow> nat Y = y \<and> M = int m"
      using str_nat_inj[of "nat Y" y] assms(3) by (auto simp add: month_prefix_iff)
    finally show ?thesis using False by auto
  qed
qed

lemma startswith_key_iff:
  assumes "is_date_string s"
  shows "startswith s (get_monthly_key a) \<longleftrightarrow> in_calendar_month (selected_year a) (selected_month a) s"
proof -
  from assms obtain y m d where
    r: "1000 \<le> y" "y \<le> 9999" "1 \<le> m" "m \<le> 12" "1 \<le> d" "d \<le> 31" and s: "s = strftime_ymd y m d"
    by (auto simp add: is_date_string_def)
  have k: "startswith s (get_monthly_key a) \<longleftrightarrow> selected_year a = int y \<and> selected_month a = int m"
    unfolding startswith_def get_monthly_key_def s using r by (rule_tac key_prefix_iff) simp_all
  show ?thesis
  proof
    assume "startswith s (get_monthly_key a)"
    with k have "int y = selected_year a" "int m = selected_month a" by simp_all
    with r s show "in_calendar_month (selected_year a) (selected_month a) s"
      unfolding in_calendar_month_def by (intro bexI[of _ y] bexI[of _ m] bexI[of _ d]) simp_all
  next
    assume "in_calendar_month (selected_year a) (selected_month a) s"
    then obtain y' m' d' where
      r': "1000 \<le> y'" "y' \<le> 9999" "m' \<le> 12" and s': "s = strftime_ymd y' m' d'"
      and e: "int y' = selected_year a" "int m' = selected_month a"
      by (auto simp add: in_calendar_month_def)
    have "prefix (str_int (selected_year a) @ ''-'' @ fmt_02d (selected_month a)) (strftime_ymd y' m' d')"
      using key_prefix_iff[OF r', of "selected_year a" "selected_month a" d'] e by simp
    then show "startswith s (get_monthly_key a)"
      by (simp add: startswith_def get_monthly_key_def s')
  qed
qed

lemma stats_step_month_earned:
  "month_earned (stats_step k s t)
     = month_earned s + (if startswith (date t) k then earned_contribution t else 0)"
  by (cases t) (simp_all add: stats_step_def Let_def)

lemma stats_step_month_spent_usd:
  "month_spent_usd (stats_step k s t)
     = month_spent_usd s + (if startswith (date t) k then spent_usd_contribution t else 0)"
  by (cases t) (simp_all add: stats_step_def Let_def)

lemma stats_step_month_spent_dzd:
  "month_spent_dzd (stats_step k s t)
     = month_spent_dzd s + (if startswith (date t) k then spent_dzd_contribution t else 0)"
  by (cases t; cases "currency t") (simp_all add: stats_step_def Let_def)

lemma foldl_month_earned:
  "month_earned (foldl (stats_step k) s ts)
     = month_earned s + sum_list (map earned_contribution (filter (\<lambda>t. startswith (date t) k) ts))"
  by (induction ts arbitrary: s) (simp_all add: stats_step_month_earned add.assoc)

lemma foldl_month_spent_usd:
  "month_spent_usd (foldl (stats_step k) s ts)
     = month_spent_usd s + sum_list (map spent_usd_contribution (filter (\<lambda>t. startswith (date t) k) ts))"
  by (induction ts arbitrary: s) (simp_all add: stats_step_month_spent_usd add.assoc)

lemma foldl_month_spent_dzd:
  "month_spent_dzd (foldl (stats_step k) s ts)
     = month_spent_dzd s + sum_list (map spent_dzd_contribution (filter (\<lambda>t. startswith (date t) k) ts))"
  by (induction ts arbitrary: s) (simp_all add: stats_step_month_spent_dzd add.assoc)

lemma month_filter_eq:
  assumes "\<forall>t \<in> set (transactions a). is_date_string (date t)"
  shows "filter (\<lambda>t. startswith (date t) (get_monthly_key a)) (transactions a)
       = filter (\<lambda>t. in_calendar_month (selected_year a) (selected_month a) (date t)) (transactions a)"
  using assms by (intro filter_cong) (simp_all add: startswith_key_iff)

lemma strftime_2024_03_31: "strftime_ymd 2024 3 31 = ''2024-03-31''"
  by (simp add: strftime_ymd_def zfill_def str_nat.simps digit_char_def)

lemma key_2024_03:
  "selected_year a = 2024 \<Longrightarrow> selected_month a = 3 \<Longrightarrow> get_monthly_key a = ''2024-03''"
  by (simp add: get_monthly_key_def str_int_def fmt_02d_def zfill_def str_nat.simps digit_char_def)

lemma is_date_stringI:
  "1000 \<le> y \<Longrightarrow> y \<le> 9999 \<Longrightarrow> 1 \<le> m \<Longrightarrow> m \<le> 12 \<Longrightarrow> 1 \<le> d \<Longrightarrow> d \<le> 31 \<Longrightarrow>
   s = strftime_ymd y m d \<Longrightarrow> is_date_string s"
  unfolding is_date_string_def by (intro bexI[of _ y] bexI[of _ m] bexI[of _ d]) simp_all

text \<open>
  C4. When every date of the ledger is a date string, the three monthly totals are the
  sums, over the transactions whose date lies in the selected calendar month, of the net
  amounts of the incomes and of the amounts of the USD and of the DZD expenses; a
  transfer adds to none of them. This holds for every selected year and month, also
  outside the range of dates. With 2024-03 selected, 2024-03-31 passes the test and
  2024-02-28 and 2024-04-01 do not.
\<close>

theorem monthly_totals:
  fixes a :: "('a::ab_group_add) app"
  shows
  "((\<forall>t \<in> set (transactions a). is_date_string (date t)) \<longrightarrow>
      month_earned (calculate_stats a)
        = sum_list (map earned_contribution
            (filter (\<lambda>t. in_calendar_month (selected_year a) (selected_month a) (date t))
               (transactions a)))
    \<and> month_spent_usd (calculate_stats a)
        = sum_list (map spent_usd_contribution
            (filter (\<lambda>t. in_calendar_month (selected_year a) (selected_month a) (date t))
               (transactions a)))
    \<and> month_spent_dzd (calculate_stats a)
        = sum_list (map spent_dzd_contribution
            (filter (\<lambda>t. in_calendar_month (selected_year a) (selected_month a) (date t))
               (transactions a))))
 \<and> (selected_year a = 2024 \<and> selected_month a = 3 \<longrightarrow>
      startswith ''2024-03-31'' (get_monthly_key a)
    \<and> \<not> startswith ''2024-02-28'' (get_monthly_key a)
    \<and> \<not> startswith ''2024-04-01'' (get_monthly_key a))"
proof -
  have "startswith ''2024-03-31'' (get_monthly_key a)
    \<and> \<not> startswith ''2024-02-28'' (get_monthly_key a)
    \<and> \<not> startswith ''2024-04-01'' (get_monthly_key a)"
    if "selected_year a = 2024" "selected_month a = 3"
    using that by (simp add: key_2024_03 startswith_def)
  moreover have "month_earned (calculate_stats a)
        = sum_list (map earned_contribution
            (filter (\<lambda>t. in_calendar_month (selected_year a) (selected_month a) (date t))
               (transactions a)))"
    if "\<forall>t \<in> set (transactions a). is_date_string (date t)"
    using month_filter_eq[OF that] by (simp add: calculate_stats_def foldl_month_earned stats_init_def)
  moreover have "month_spent_usd (calculate_stats a)
        = sum_list (map spent_usd_contribution
            (filter (\<lambda>t. in_calendar_month (selected_year a) (selected_month a) (date t))
               (transactions a)))"
    if "\<forall>t \<in> set (transactions a). is_date_string (date t)"
    using month_filter_eq[OF that] by (simp add: calculate_stats_def foldl_month_spent_usd stats_init_def)
  moreover have "month_spent_dzd (calculate_stats a)
        = sum_list (map spent_dzd_contribution
            (filter (\<lambda>t. in_calendar_month (selected_year a) (selected_month a) (date t))
               (transactions a)))"
    if "\<forall>t \<in> set (transactions a). is_date_string (date t)"
    using month_filter_eq[OF that] by (simp add: calculate_stats_def foldl_month_spent_dzd stats_init_def)
  ultimately show ?thesis by blast
qed

theorem monthly_totals_witness:
  "is_date_string ''2024-02-28'' \<and> is_date_string ''2024-03-31'' \<and> is_date_string ''2024-04-01''
   \<and> month_earned (calculate_stats
        \<lparr>transactions = [Income ''a'' ''2024-02-28'' ''job'' (10::real) 0 10 False,
                         Income ''b'' ''2024-03-31'' ''job'' 20 0 20 False,
                         TransferUsdDzd ''x'' ''2024-03-31'' 5 200 1000,
                         Income ''c'' ''2024-04-01'' ''job'' 40 0 40 False],
         display_rate = 200, selected_year = 2024, selected_month = 3\<rparr>) = 20
   \<and> sum_list (map earned_contribution
        (filter (\<lambda>t. in_calendar_month 2024 3 (date t))
           [Income ''a'' ''2024-02-28'' ''job'' (10::real) 0 10 False,
            Income ''b'' ''2024-03-31'' ''job'' 20 0 20 False,
            TransferUsdDzd ''x'' ''2024-03-31'' 5 200 1000,
            Income ''c'' ''2024-04-01'' ''job'' 40 0 40 False])) = 20"
proof -
  have d1: "is_date_string ''2024-02-28''"
    by (rule is_date_stringI[of 2024 2 28]) (simp_all add: render_simps)
  have d2: "is_date_string ''2024-03-31''"
    by (rule is_date_stringI[of 2024 3 31]) (simp_all add: render_simps)
  have d3: "is_date_string ''2024-04-01''"
    by (rule is_date_stringI[of 2024 4 1]) (simp_all add: render_simps)
  have v: "month_earned (calculate_stats
        \<lparr>transactions = [Income ''a'' ''2024-02-28'' ''job'' (10::real) 0 10 False,
                         Income ''b'' ''2024-03-31'' ''job'' 20 0 20 False,
                         TransferUsdDzd ''x'' ''2024-03-31'' 5 200 1000,
                         Income ''c'' ''2024-04-01'' ''job'' 40 0 40 False],
         display_rate = 200, selected_year = 2024, selected_month = 3\<rparr>) = 20"
    by (simp add: stats_simps render_simps)
  show ?thesis
    using d1 d2 d3 v
      monthly_totals [of
        "\<lparr>transactions = [Income ''a'' ''2024-02-28'' ''job'' (10::real) 0 10 False,
                         Income ''b'' ''2024-03-31'' ''job'' 20 0 20 False,
                         TransferUsdDzd ''x'' ''2024-03-31'' 5 200 1000,
                         Income ''c'' ''2024-04-01'' ''job'' 40 0 40 False],
         display_rate = 200, selected_year = 2024, selected_month = 3\<rparr>"]
    by simp
qed

subsection \<open>Reordering the ledger, in binary64\<close>

lemma float_0_1_round: "round_to_float64 144115188075855872 10 (- 57) = Float64 False 3602879701896397 (- 55)"
proof -
  have len: "bit_length (nat (\<bar>144115188075855872\<bar> div 10)) = 54"
    by (simp add: bit_length.simps)
  have ne: "nearest_even 144115188075855872 20 = 7205759403792794"
    by (simp add: nearest_even_def Let_def)
  have nf: "normal_form 7205759403792794 (- 56) = Float64 False 3602879701896397 (- 55)"
    by (simp add: normal_form_def strip_zeros.simps)
  show ?thesis
    unfolding round_to_float64_def len Let_def by (simp add: ne nf)
qed

lemma float_0_1: "float_of_ratio 1 10 = Float64 False 3602879701896397 (- 55)"
proof -
  have b: "bit_length (nat 10) = 4" "bit_length (nat \<bar>1\<bar>) = 1"
    by (simp_all add: bit_length.simps)
  show ?thesis
    unfolding float_of_ratio_def b Let_def by (simp add: float_0_1_round)
qed

lemma float_0_2_round: "round_to_float64 144115188075855872 10 (- 56) = Float64 False 3602879701896397 (- 54)"
proof -
  have len: "bit_length (nat (\<bar>144115188075855872\<bar> div 10)) = 54"
    by (simp add: bit_length.simps)
  have ne: "nearest_even 144115188075855872 20 = 7205759403792794"
    by (simp add: nearest_even_def Let_def)
  have nf: "normal_form 7205759403792794 (- 55) = Float64 False 3602879701896397 (- 54)"
    by (simp add: normal_form_def strip_zeros.simps)
  show ?thesis
    unfolding round_to_float64_def len Let_def by (simp add: ne nf)
qed

lemma float_0_2: "float_of_ratio 2 10 = Float64 False 3602879701896397 (- 54)"
proof -
  have b: "bit_length (nat 10) = 4" "bit_length (nat \<bar>2\<bar>) = 2"
    by (simp_all add: bit_length.simps)
  show ?thesis
    unfolding float_of_ratio_def b Let_def by (simp add: float_0_2_round)
qed

lemma float_0_3_round: "round_to_float64 216172782113783808 10 (- 56) = Float64 False 5404319552844595 (- 54)"
proof -
  have len: "bit_length (nat (\<bar>216172782113783808\<bar> div 10)) = 55"
    by (simp add: bit_length.simps)
  have ne: "nearest_even 216172782113783808 40 = 5404319552844595"
    by (simp add: nearest_even_def Let_def)
  have nf: "normal_form 5404319552844595 (- 54) = Float64 False 5404319552844595 (- 54)"
    by (simp add: normal_form_def strip_zeros.simps)
  show ?thesis
    unfolding round_to_float64_def len Let_def by (simp add: ne nf)
qed

lemma float_0_3: "float_of_ratio 3 10 = Float64 False 5404319552844595 (- 54)"
proof -
  have b: "bit_length (nat 10) = 4" "bit_length (nat \<bar>3\<bar>) = 2"
    by (simp_all add: bit_length.simps)
  show ?thesis
    unfolding float_of_ratio_def b Let_def by (simp add: float_0_3_round)
qed

lemma sum_a1_round: "round_to_float64 3602879701896397 1 (- 55) = Float64 False 3602879701896397 (- 55)"
proof -
  have len: "bit_length (nat (\<bar>3602879701896397\<bar> div 1)) = 52"
    by (simp add: bit_length.simps)
  have nf: "normal_form 3602879701896397 (- 55) = Float64 False 3602879701896397 (- 55)"
    by (simp add: normal_form_def strip_zeros.simps)
  show ?thesis
    unfolding round_to_float64_def len Let_def by (simp add: nf)
qed

lemma sum_a1: "0 + (Float64 False 3602879701896397 (- 55)) = Float64 False 3602879701896397 (- 55)"
  by (simp add: zero_float64_def plus_float64_def float64_add_def signed_mantissa_def Let_def
      sum_a1_round)

lemma sum_a2_round: "round_to_float64 10808639105689191 1 (- 55) = Float64 False 1351079888211149 (- 52)"
proof -
  have len: "bit_length (nat (\<bar>10808639105689191\<bar> div 1)) = 54"
    by (simp add: bit_length.simps)
  have ne: "nearest_even 10808639105689191 2 = 5404319552844596"
    by (simp add: nearest_even_def Let_def)
  have nf: "normal_form 5404319552844596 (- 54) = Float64 False 1351079888211149 (- 52)"
    by (simp add: normal_form_def strip_zeros.simps)
  show ?thesis
    unfolding round_to_float64_def len Let_def by (simp add: ne nf)
qed

lemma sum_a2: "(Float64 False 3602879701896397 (- 55)) + (Float64 False 3602879701896397 (- 54)) = Float64 False 1351079888211149 (- 52)"
  by (simp add: zero_float64_def plus_float64_def float64_add_def signed_mantissa_def Let_def
      sum_a2_round)

lemma sum_a3_round: "round_to_float64 10808639105689191 1 (- 54) = Float64 False 1351079888211149 (- 51)"
proof -
  have len: "bit_length (nat (\<bar>10808639105689191\<bar> div 1)) = 54"
    by (simp add: bit_length.simps)
  have ne: "nearest_even 10808639105689191 2 = 5404319552844596"
    by (simp add: nearest_even_def Let_def)
  have nf: "normal_form 5404319552844596 (- 53) = Float64 False 1351079888211149 (- 51)"
    by (simp add: normal_form_def strip_zeros.simps)
  show ?thesis
    unfolding round_to_float64_def len Let_def by (simp add: ne nf)
qed

lemma sum_a3: "(Float64 False 1351079888211149 (- 52)) + (Float64 False 5404319552844595 (- 54)) = Float64 False 1351079888211149 (- 51)"
  by (simp add: zero_float64_def plus_float64_def float64_add_def signed_mantissa_def Let_def
      sum_a3_round)

lemma sum_b1_round: "round_to_float64 5404319552844595 1 (- 54) = Float64 False 5404319552844595 (- 54)"
proof -
  have len: "bit_length (nat (\<bar>5404319552844595\<bar> div 1)) = 53"
    by (simp add: bit_length.simps)
  have nf: "normal_form 5404319552844595 (- 54) = Float64 False 5404319552844595 (- 54)"
    by (simp add: normal_form_def strip_zeros.simps)
  show ?thesis
    unfolding round_to_float64_def len Let_def by (simp add: nf)
qed

lemma sum_b1: "0 + (Float64 False 5404319552844595 (- 54)) = Float64 False 5404319552844595 (- 54)"
  by (simp add: zero_float64_def plus_float64_def float64_add_def signed_mantissa_def Let_def
      sum_b1_round)

lemma sum_b2_round: "round_to_float64 9007199254740992 1 (- 54) = Float64 False 1 (- 1)"
proof -
  have len: "bit_length (nat (\<bar>9007199254740992\<bar> div 1)) = 54"
    by (simp add: bit_length.simps)
  have ne: "nearest_even 9007199254740992 2 = 4503599627370496"
    by (simp add: nearest_even_def Let_def)
  have nf: "normal_form 4503599627370496 (- 53) = Float64 False 1 (- 1)"
    by (simp add: normal_form_def strip_zeros.simps)
  show ?thesis
    unfolding round_to_float64_def len Let_def by (simp add: ne nf)
qed

lemma sum_b2: "(Float64 False 5404319552844595 (- 54)) + (Float64 False 3602879701896397 (- 54)) = Float64 False 1 (- 1)"
  by (simp add: zero_float64_def plus_float64_def float64_add_def signed_mantissa_def Let_def
      sum_b2_round)

lemma sum_b3_round: "round_to_float64 21617278211378381 1 (- 55) = Float64 False 5404319552844595 (- 53)"
proof -
  have len: "bit_length (nat (\<bar>21617278211378381\<bar> div 1)) = 55"
    by (simp add: bit_length.simps)
  have ne: "nearest_even 21617278211378381 4 = 5404319552844595"
    by (simp add: nearest_even_def Let_def)
  have nf: "normal_form 5404319552844595 (- 53) = Float64 False 5404319552844595 (- 53)"
    by (simp add: normal_form_def strip_zeros.simps)
  show ?thesis
    unfolding round_to_float64_def len Let_def by (simp add: ne nf)
qed

lemma sum_b3: "(Float64 False (Suc 0) (- 1)) + (Float64 False 3602879701896397 (- 55)) = Float64 False 5404319552844595 (- 53)"
  by (simp add: zero_float64_def plus_float64_def float64_add_def signed_mantissa_def Let_def
      sum_b3_round)

text \<open>
  C3, as stated, fails on floats: three incomes of 0.1, 0.2 and 0.3 paid to the bank give
  the balance \<open>0.6000000000000001\<close> in this order and \<open>0.6\<close> in the reverse order.
\<close>

theorem balances_order_dependent_float64:
  "mset [Income ''a'' ''2024-03-01'' ''job'' (float_of_ratio 1 10) 0 (float_of_ratio 1 10) False,
         Income ''b'' ''2024-03-02'' ''job'' (float_of_ratio 2 10) 0 (float_of_ratio 2 10) False,
         Income ''c'' ''2024-03-03'' ''job'' (float_of_ratio 3 10) 0 (float_of_ratio 3 10) False]
   = mset [Income ''c'' ''2024-03-03'' ''job'' (float_of_ratio 3 10) 0 (float_of_ratio 3 10) False,
         Income ''b'' ''2024-03-02'' ''job'' (float_of_ratio 2 10) 0 (float_of_ratio 2 10) False,
         Income ''a'' ''2024-03-01'' ''job'' (float_of_ratio 1 10) 0 (float_of_ratio 1 10) False]
   \<and> usd_savings (calculate_stats
        \<lparr>transactions =
           [Income ''a'' ''2024-03-01'' ''job'' (float_of_ratio 1 10) 0 (float_of_ratio 1 10) False,
            Income ''b'' ''2024-03-02'' ''job'' (float_of_ratio 2 10) 0 (float_of_ratio 2 10) False,
            Income ''c'' ''2024-03-03'' ''job'' (float_of_ratio 3 10) 0 (float_of_ratio 3 10) False],
         display_rate = float_of_ratio 200 1, selected_year = 2024, selected_month = 3\<rparr>)
     = Float64 False 1351079888211149 (- 51)
   \<and> usd_savings (calculate_stats
        \<lparr>transactions =
           [Income ''c'' ''2024-03-03'' ''job'' (float_of_ratio 3 10) 0 (float_of_ratio 3 10) False,
            Income ''b'' ''2024-03-02'' ''job'' (float_of_ratio 2 10) 0 (float_of_ratio 2 10) False,
            Income ''a'' ''2024-03-01'' ''job'' (float_of_ratio 1 10) 0 (float_of_ratio 1 10) False],
         display_rate = float_of_ratio 200 1, selected_year = 2024, selected_month = 3\<rparr>)
     = Float64 False 5404319552844595 (- 53)
   \<and> Float64 False 1351079888211149 (- 51) \<noteq> Float64 False 5404319552844595 (- 53)"
proof -
  have p: "mset [Income ''a'' ''2024-03-01'' ''job'' (float_of_ratio 1 10) 0 (float_of_ratio 1 10) False,
         Income ''b'' ''2024-03-02'' ''job'' (float_of_ratio 2 10) 0 (float_of_ratio 2 10) False,
         Income ''c'' ''2024-03-03'' ''job'' (float_of_ratio 3 10) 0 (float_of_ratio 3 10) False]
   = mset [Income ''c'' ''2024-03-03'' ''job'' (float_of_ratio 3 10) 0 (float_of_ratio 3 10) False,
         Income ''b'' ''2024-03-02'' ''job'' (float_of_ratio 2 10) 0 (float_of_ratio 2 10) False,
         Income ''a'' ''2024-03-01'' ''job'' (float_of_ratio 1 10) 0 (float_of_ratio 1 10) False]"
    by (simp only: mset.simps add_mset_commute)
  have f: "usd_savings (calculate_stats
        \<lparr>transactions =
           [Income ''a'' ''2024-03-01'' ''job'' (float_of_ratio 1 10) 0 (float_of_ratio 1 10) False,
            Income ''b'' ''2024-03-02'' ''job'' (float_of_ratio 2 10) 0 (float_of_ratio 2 10) False,
            Income ''c'' ''2024-03-03'' ''job'' (float_of_ratio 3 10) 0 (float_of_ratio 3 10) False],
         display_rate = float_of_ratio 200 1, selected_year = 2024, selected_month = 3\<rparr>)
     = Float64 False 1351079888211149 (- 51)"
    by (simp add: stats_simps render_simps float_0_1 float_0_2 float_0_3 sum_a1 sum_a2 sum_a3)
  have b: "usd_savings (calculate_stats
        \<lparr>transactions =
           [Income ''c'' ''2024-03-03'' ''job'' (float_of_ratio 3 10) 0 (float_of_ratio 3 10) False,
            Income ''b'' ''2024-03-02'' ''job'' (float_of_ratio 2 10) 0 (float_of_ratio 2 10) False,
            Income ''a'' ''2024-03-01'' ''job'' (float_of_ratio 1 10) 0 (float_of_ratio 1 10) False],
         display_rate = float_of_ratio 200 1, selected_year = 2024, selected_month = 3\<rparr>)
     = Float64 False 5404319552844595 (- 53)"
    by (simp add: stats_simps render_simps float_0_1 float_0_2 float_0_3 sum_b1 sum_b2 sum_b3)
  show ?thesis using p f b by simp
qed

subsection \<open>Reordering the ledger, in exact arithmetic\<close>

lemma sum_list_map_mset_cong:
  fixes f :: "'b \<Rightarrow> 'a::ab_group_add"
  assumes "mset xs = mset ys"
  shows "sum_list (map f xs) = sum_list (map f ys)"
proof -
  have "sum_mset (mset (map f xs)) = sum_mset (mset (map f ys))"
    using assms by (metis mset_map)
  then show ?thesis by (simp only: sum_mset_sum_list)
qed

text \<open>
  C3, amended. When amounts are added and subtracted exactly, two ledgers with the same
  transactions in any order have the same three balances.
\<close>

theorem balances_permutation_exact:
  fixes a b :: "('a::ab_group_add) app"
  assumes "mset (transactions a) = mset (transactions b)"
  shows "usd_savings (calculate_stats a) = usd_savings (calculate_stats b)
       \<and> paypal_balance (calculate_stats a) = paypal_balance (calculate_stats b)
       \<and> dzd_cash (calculate_stats a) = dzd_cash (calculate_stats b)"
  by (simp only: calculate_stats_usd_savings calculate_stats_paypal_balance
      calculate_stats_dzd_cash sum_list_map_mset_cong [OF assms, of bank_contribution]
      sum_list_map_mset_cong [OF assms, of paypal_contribution]
      sum_list_map_mset_cong [OF assms, of cash_contribution] simp_thms)

theorem balances_permutation_exact_witness:
  "mset [Income ''a'' ''2024-03-01'' ''job'' (0.1::real) 0 0.1 False,
         Income ''b'' ''2024-03-02'' ''job'' 0.2 0 0.2 False,
         Expense ''c'' ''2024-03-03'' ''Other - tea'' 0.3 USD]
   = mset [Expense ''c'' ''2024-03-03'' ''Other - tea'' 0.3 USD,
         Income ''b'' ''2024-03-02'' ''job'' (0.2::real) 0 0.2 False,
         Income ''a'' ''2024-03-01'' ''job'' 0.1 0 0.1 False]
   \<and> usd_savings (calculate_stats
        \<lparr>transactions =
           [Income ''a'' ''2024-03-01'' ''job'' (0.1::real) 0 0.1 False,
            Income ''b'' ''2024-03-02'' ''job'' 0.2 0 0.2 False,
            Expense ''c'' ''2024-03-03'' ''Other - tea'' 0.3 USD],
         display_rate = 200, selected_year = 2024, selected_month = 3\<rparr>)
     = usd_savings (calculate_stats
        \<lparr>transactions =
           [Expense ''c'' ''2024-03-03'' ''Other - tea'' 0.3 USD,
            Income ''b'' ''2024-03-02'' ''job'' (0.2::real) 0 0.2 False,
            Income ''a'' ''2024-03-01'' ''job'' 0.1 0 0.1 False],
         display_rate = 200, selected_year = 2024, selected_month = 4\<rparr>)"
proof -
  have p: "mset [Income ''a'' ''2024-03-01'' ''job'' (0.1::real) 0 0.1 False,
         Income ''b'' ''2024-03-02'' ''job'' 0.2 0 0.2 False,
         Expense ''c'' ''2024-03-03'' ''Other - tea'' 0.3 USD]
   = mset [Expense ''c'' ''2024-03-03'' ''Other - tea'' 0.3 USD,
         Income ''b'' ''2024-03-02'' ''job'' (0.2::real) 0 0.2 False,
         Income ''a'' ''2024-03-01'' ''job'' 0.1 0 0.1 False]"
    by (simp only: mset.simps add_mset_commute)
  show ?thesis
    using p balances_permutation_exact [of
        "\<lparr>transactions =
           [Income ''a'' ''2024-03-01'' ''job'' (0.1::real) 0 0.1 False,
            Income ''b'' ''2024-03-02'' ''job'' 0.2 0 0.2 False,
            Expense ''c'' ''2024-03-03'' ''Other - tea'' 0.3 USD],
         display_rate = 200, selected_year = 2024, selected_month = 3\<rparr>"
        "\<lparr>transactions =
           [Expense ''c'' ''2024-03-03'' ''Other - tea'' 0.3 USD,
            Income ''b'' ''2024-03-02'' ''job'' (0.2::real) 0 0.2 False,
            Income ''a'' ''2024-03-01'' ''job'' 0.1 0 0.1 False],
         display_rate = 200, selected_year = 2024, selected_month = 4\<rparr>"]
    by simp
qed

end
